theory Spec2Isabelle
  imports Complex_Main "HOL-Library.Word"
begin

text \<open>
  The conversation view and the App component of the photo-conversation application,
  as functions on the state of their hooks and refs.  A handler takes the state and
  what the browser tells it and returns the new state; the calls that leave the
  component are appended to a list in the state.
\<close>

section \<open>Values of the platform\<close>

text \<open>
  JavaScript numbers are modelled as exact reals: the rounding of IEEE doubles is
  not part of the model.  A JavaScript string is the list of its UTF-16 code units.
\<close>

type_synonym jsstring = "16 word list"

definition str :: "string \<Rightarrow> jsstring" where
  "str cs = map (\<lambda>c. of_nat (of_char c)) cs"

text \<open>\<^verbatim>\<open>String.prototype.trim\<close>: white space and line terminators of ECMAScript.\<close>

definition isWhiteSpace :: "16 word \<Rightarrow> bool" where
  "isWhiteSpace c =
     (c \<in> set [0x09, 0x0A, 0x0B, 0x0C, 0x0D, 0x20, 0xA0, 0x1680, 0x2028, 0x2029,
                0x202F, 0x205F, 0x3000, 0xFEFF]
      \<or> (0x2000 \<le> c \<and> c \<le> 0x200A))"

definition trim :: "jsstring \<Rightarrow> jsstring" where
  "trim s = rev (dropWhile isWhiteSpace (rev (dropWhile isWhiteSpace s)))"

section \<open>ConversationView: data\<close>

datatype status = Idle | Connecting | Live | Error

datatype speaker = User | Model

record TranscriptEntry =
  speaker :: speaker
  entry_text :: jsstring

record MouthCoordinates =
  coord_x :: real
  coord_y :: real
  coord_width :: real
  coord_height :: real

text \<open>The canvas element; \<open>context2d\<close> tells whether \<^verbatim>\<open>getContext('2d')\<close> gives a context.\<close>

record canvas =
  canvas_width :: real
  canvas_height :: real
  context2d :: bool

record image =
  img_width :: real
  img_height :: real

datatype context_state = Running | Closed

datatype context_id = InputContext | OutputContext

text \<open>
  Calls into the browser and the session that leave the component, in the order they
  are made.  The three \<open>DrawImage\<dots>\<close> constructors after \<open>DrawImage\<close> are the three
  \<^verbatim>\<open>ctx.drawImage\<close> calls of the jaw-drop branch: the part above the jaw line, the jaw
  drawn at \<open>jawLineCanvasY + mouthOpenness\<close>, and the strip of height \<open>mouthOpenness\<close>.
\<close>

datatype effect =
    SetStatus status
  | SessionClose
  | MediaStreamSourceDisconnect
  | ScriptProcessorDisconnect
  | TrackStop
  | ContextClose context_id
  | RequestAnimationFrame nat
  | CancelAnimationFrame nat
  | SourceStart nat real
  | SourceStop nat
  | ClearRect
  | DrawImage
  | DrawImageTop real real
  | DrawImageJaw real real
  | DrawImageGap real real real
  | OnEnd

text \<open>
  The state hooks and refs of the component.  A ref to an object without state of its
  own is a flag (\<open>True\<close>: the ref holds the object, \<open>False\<close>: it is \<^verbatim>\<open>null\<close>).
  An \<^verbatim>\<open>AudioBufferSourceNode\<close> is the number it was created under, so that the set of
  active sources is the list of these numbers in insertion order.  The last four fields
  belong to the browser: the number of the next source node, the next animation-frame
  id, the frame requests not yet run or cancelled, and the calls made so far.
\<close>

record conv =
  status :: status
  transcript :: "TranscriptEntry list"
  activeAudioSources :: int
  sessionPromiseRef :: bool
  inputAudioContextRef :: "context_state option"
  outputAudioContextRef :: "context_state option"
  audioStreamRef :: bool
  scriptProcessorRef :: bool
  mediaStreamSourceRef :: bool
  nextStartTimeRef :: real
  audioSourcesRef :: "nat list"
  analyserNodeRef :: bool
  animationFrameIdRef :: "nat option"
  canvasRef :: "canvas option"
  imageRef :: "image option"
  smoothedVolumeRef :: real
  currentInputTranscriptionRef :: jsstring
  currentOutputTranscriptionRef :: jsstring
  nodeCounter :: nat
  frameCounter :: nat
  pendingFrames :: "nat list"
  effects :: "effect list"

text \<open>
  What a handler reads from the browser while it runs: the clock of the output audio
  context and the analyser's time-domain bytes.
\<close>

record browser =
  currentTime :: real
  byteTimeDomainData :: "8 word list"

text \<open>
  The prop of the component that the handlers close over, and the decoder as a parameter:
  \<^verbatim>\<open>decode\<close> and \<^verbatim>\<open>decodeAudioData\<close> are imported from \<^verbatim>\<open>utils/audio\<close>, which is not
  among the sources.  The parameter gives the duration of the decoded buffer, and
  \<open>None\<close> when decoding throws.  A chunk is represented by the bytes that its base64
  text encodes.
\<close>

record env =
  mouthCoordinates :: "MouthCoordinates option"
  decodeAudioData :: "8 word list \<Rightarrow> real option"

definition emit :: "effect list \<Rightarrow> conv \<Rightarrow> conv" where
  "emit es s = s\<lparr>effects := effects s @ es\<rparr>"

definition OUTPUT_SAMPLE_RATE :: real where
  "OUTPUT_SAMPLE_RATE = 24000"

text \<open>
  Modelled from the spec: \<^verbatim>\<open>decodeAudioData\<close> of \<^verbatim>\<open>utils/audio\<close> (absent), after section
  4.1: 16-bit PCM, one channel, at the output rate; an odd byte count is a DecodeError.
\<close>

definition decodeAudioData_spec :: "8 word list \<Rightarrow> real option" where
  "decodeAudioData_spec bytes =
     (if odd (length bytes) then None
      else Some (real (length bytes div 2) / OUTPUT_SAMPLE_RATE))"

section \<open>Stopping\<close>

definition setStatus :: "status \<Rightarrow> conv \<Rightarrow> conv" where
  "setStatus st s = emit [SetStatus st] (s\<lparr>status := st\<rparr>)"

definition stopAudioProcessing :: "conv \<Rightarrow> conv" where
  "stopAudioProcessing s =
     (let s1 = (if scriptProcessorRef s \<and> mediaStreamSourceRef s
                then emit [MediaStreamSourceDisconnect, ScriptProcessorDisconnect]
                       (s\<lparr>scriptProcessorRef := False, mediaStreamSourceRef := False\<rparr>)
                else s);
          s2 = (if audioStreamRef s1
                then emit [TrackStop] (s1\<lparr>audioStreamRef := False\<rparr>)
                else s1);
          s3 = (if inputAudioContextRef s2 = Some Running
                then emit [ContextClose InputContext] (s2\<lparr>inputAudioContextRef := Some Closed\<rparr>)
                else s2)
      in (if outputAudioContextRef s3 = Some Running
          then emit [ContextClose OutputContext] (s3\<lparr>outputAudioContextRef := Some Closed\<rparr>)
          else s3))"

text \<open>
  \<^verbatim>\<open>if (animationFrameIdRef.current) { cancelAnimationFrame(...); ... = null }\<close>:
  the test is JavaScript truthiness, so the id 0 would not be cancelled.
\<close>

definition cancelAnimation :: "conv \<Rightarrow> conv" where
  "cancelAnimation s =
     (case animationFrameIdRef s of
        None \<Rightarrow> s
      | Some i \<Rightarrow>
          if i = 0 then s
          else emit [CancelAnimationFrame i]
                 (s\<lparr>pendingFrames := removeAll i (pendingFrames s), animationFrameIdRef := None\<rparr>))"

definition stopAnimation :: "conv \<Rightarrow> conv" where
  "stopAnimation s =
     (let s1 = cancelAnimation s in
      case canvasRef s1 of
        None \<Rightarrow> s1
      | Some c \<Rightarrow>
          (case imageRef s1 of
             None \<Rightarrow> s1
           | Some i \<Rightarrow> if \<not> context2d c then s1 else emit [ClearRect, DrawImage] s1))"

definition stopSources :: "conv \<Rightarrow> conv" where
  "stopSources s = (emit (map SourceStop (audioSourcesRef s)) s)\<lparr>audioSourcesRef := []\<rparr>"

text \<open>
  \<^verbatim>\<open>session.close()\<close> is called in the \<^verbatim>\<open>then\<close> callback of the session promise, which
  runs when the handler has returned: it is the last call.
\<close>

definition endConversation :: "conv \<Rightarrow> conv" where
  "endConversation s =
     (let s1 = setStatus Idle s;
          s2 = s1\<lparr>sessionPromiseRef := False\<rparr>;
          s3 = stopAudioProcessing s2;
          s4 = cancelAnimation s3;
          s5 = stopSources s4;
          s6 = emit [OnEnd] s5
      in if sessionPromiseRef s1 then emit [SessionClose] s6 else s6)"

section \<open>The lip-sync animation frame\<close>

definition requestAnimationFrame :: "conv \<Rightarrow> conv" where
  "requestAnimationFrame s =
     emit [RequestAnimationFrame (frameCounter s)]
       (s\<lparr>animationFrameIdRef := Some (frameCounter s),
          pendingFrames := pendingFrames s @ [frameCounter s],
          frameCounter := Suc (frameCounter s)\<rparr>)"

definition normSample :: "8 word \<Rightarrow> real" where
  "normSample amplitude = real (unat amplitude) / 128 - 1"

definition rms :: "8 word list \<Rightarrow> real" where
  "rms dataArray =
     sqrt (sum_list (map (\<lambda>amplitude. normSample amplitude * normSample amplitude) dataArray)
           / real (length dataArray))"

definition volumeThreshold :: real where
  "volumeThreshold = 0.02"

definition smoothingFactor :: real where
  "smoothingFactor = 0.25"

definition effectiveVolume :: "8 word list \<Rightarrow> real" where
  "effectiveVolume dataArray = (if rms dataArray > volumeThreshold then rms dataArray else 0)"

definition dHeight :: "canvas \<Rightarrow> MouthCoordinates \<Rightarrow> real" where
  "dHeight c coords = canvas_height c * (coord_height coords / 100)"

definition maxOpenness :: "canvas \<Rightarrow> MouthCoordinates \<Rightarrow> real" where
  "maxOpenness c coords = dHeight c coords * 0.7"

definition mouthOpenness :: "canvas \<Rightarrow> MouthCoordinates \<Rightarrow> real \<Rightarrow> real" where
  "mouthOpenness c coords smoothed = smoothed * maxOpenness c coords * 8"

definition jawLineSourceY :: "image \<Rightarrow> MouthCoordinates \<Rightarrow> real" where
  "jawLineSourceY img coords =
     img_height img * (coord_y coords / 100) + img_height img * (coord_height coords / 100) / 2"

definition jawLineCanvasY :: "canvas \<Rightarrow> MouthCoordinates \<Rightarrow> real" where
  "jawLineCanvasY c coords = canvas_height c * (coord_y coords / 100) + dHeight c coords / 2"

text \<open>The drawing of one frame, after \<^verbatim>\<open>ctx.clearRect\<close>.\<close>

definition drawFrame :: "canvas \<Rightarrow> image \<Rightarrow> MouthCoordinates \<Rightarrow> real \<Rightarrow> effect list" where
  "drawFrame c img coords smoothed =
     (if mouthOpenness c coords smoothed > 1
      then [DrawImageTop (jawLineSourceY img coords) (jawLineCanvasY c coords),
            DrawImageJaw (jawLineSourceY img coords)
              (jawLineCanvasY c coords + mouthOpenness c coords smoothed),
            DrawImageGap (jawLineSourceY img coords - 1) (jawLineCanvasY c coords)
              (mouthOpenness c coords smoothed)]
      else [DrawImage])"

text \<open>
  One run of \<^verbatim>\<open>animateMouth\<close>.  Without analyser, canvas, image or mouth region it only
  asks for the next frame; without a 2D context it returns at once.
\<close>

definition animateMouth :: "env \<Rightarrow> browser \<Rightarrow> conv \<Rightarrow> conv" where
  "animateMouth e b s =
     (case (canvasRef s, imageRef s, mouthCoordinates e) of
        (Some c, Some img, Some coords) \<Rightarrow>
          if \<not> analyserNodeRef s then requestAnimationFrame s
          else if \<not> context2d c then s
          else
            (let smoothed = smoothedVolumeRef s * (1 - smoothingFactor)
                            + effectiveVolume (byteTimeDomainData b) * smoothingFactor
             in requestAnimationFrame
                  (emit (ClearRect # drawFrame c img coords smoothed)
                     (s\<lparr>smoothedVolumeRef := smoothed\<rparr>)))
      | _ \<Rightarrow> requestAnimationFrame s)"

section \<open>Mounting and starting\<close>

text \<open>The values the hooks and refs are created with.\<close>

definition initialConv :: conv where
  "initialConv =
     \<lparr>status = Idle, transcript = [], activeAudioSources = 0, sessionPromiseRef = False,
      inputAudioContextRef = None, outputAudioContextRef = None, audioStreamRef = False,
      scriptProcessorRef = False, mediaStreamSourceRef = False, nextStartTimeRef = 0,
      audioSourcesRef = [], analyserNodeRef = False, animationFrameIdRef = None,
      canvasRef = None, imageRef = None, smoothedVolumeRef = 0,
      currentInputTranscriptionRef = [], currentOutputTranscriptionRef = [],
      nodeCounter = 0, frameCounter = 1, pendingFrames = [], effects = []\<rparr>"

text \<open>
  The component after mounting and the load of the photo: the canvas (at the size the
  load handler gives it) and the image are in their refs and the photo is drawn.  The
  image ref is only set when the canvas gives a 2D context.
\<close>

definition mount :: "canvas \<Rightarrow> image \<Rightarrow> conv" where
  "mount c img =
     (if context2d c
      then emit [DrawImage] (initialConv\<lparr>canvasRef := Some c, imageRef := Some img\<rparr>)
      else initialConv\<lparr>canvasRef := Some c\<rparr>)"

text \<open>
  The steps of \<^verbatim>\<open>startConversation\<close> inside its \<^verbatim>\<open>try\<close> that can throw: the request for
  the microphone, the two \<^verbatim>\<open>AudioContext\<close> constructors, the \<^verbatim>\<open>GoogleGenAI\<close> constructor
  and the call of \<^verbatim>\<open>ai.live.connect\<close>.  The promise that \<^verbatim>\<open>connect\<close> returns is not
  awaited: when it is rejected later, the \<^verbatim>\<open>catch\<close> block does not run.
\<close>

datatype start_failure =
  PermissionDenied | InputContextFails | OutputContextFails | ClientFails | ConnectFails

definition startConversation :: "start_failure option \<Rightarrow> conv \<Rightarrow> conv" where
  "startConversation failure s =
     (let s0 = (setStatus Connecting s)\<lparr>transcript := []\<rparr> in
      if failure = Some PermissionDenied then setStatus Error s0
      else let s1 = s0\<lparr>audioStreamRef := True\<rparr> in
      if failure = Some InputContextFails then setStatus Error s1
      else let s2 = s1\<lparr>inputAudioContextRef := Some Running\<rparr> in
      if failure = Some OutputContextFails then setStatus Error s2
      else let s3 = s2\<lparr>outputAudioContextRef := Some Running, analyserNodeRef := True,
                        nextStartTimeRef := 0\<rparr> in
      if failure = Some ClientFails \<or> failure = Some ConnectFails then setStatus Error s3
      else s3\<lparr>sessionPromiseRef := True\<rparr>)"

section \<open>The callbacks of the session\<close>

definition onopen :: "conv \<Rightarrow> conv" where
  "onopen s = (setStatus Live s)\<lparr>mediaStreamSourceRef := True, scriptProcessorRef := True\<rparr>"

text \<open>
  Modelled from the spec: the type \<^verbatim>\<open>LiveServerMessage\<close> belongs to the SDK and is not
  among the sources.  After sections 4.2 and 6 a message carries a model turn with audio,
  input and output transcription fragments, and the flags; these are the fields of
  \<^verbatim>\<open>serverContent\<close> that the handler reads (a message without \<^verbatim>\<open>serverContent\<close> reads as
  one with none of them).  A part is the data of its \<^verbatim>\<open>inlineData\<close>, \<open>None\<close> when it has
  none; a model turn has a list of parts or no \<^verbatim>\<open>parts\<close> at all.
\<close>

type_synonym part = "8 word list option"

datatype content = Content (parts: "part list option")

record message =
  modelTurn :: "content option"
  interrupted :: bool
  inputTranscription :: "jsstring option"
  outputTranscription :: "jsstring option"
  turnComplete :: bool

datatype error = TypeError

datatype outcome = Completed | Rejected

text \<open>
  \<^verbatim>\<open>message.serverContent?.modelTurn?.parts[0]?.inlineData?.data\<close>: the index is not
  guarded, so a model turn without \<^verbatim>\<open>parts\<close> throws a TypeError.
\<close>

definition audioData :: "message \<Rightarrow> error + 8 word list option" where
  "audioData m =
     (case modelTurn m of
        None \<Rightarrow> Inr None
      | Some c \<Rightarrow>
          (case parts c of
             None \<Rightarrow> Inl TypeError
           | Some [] \<Rightarrow> Inr None
           | Some (p # ps) \<Rightarrow> Inr p))"

text \<open>
  The listener for \<^verbatim>\<open>ended\<close> of a source node.  The state updater runs at once in this
  model.
\<close>

definition onended :: "nat \<Rightarrow> conv \<Rightarrow> conv" where
  "onended sourceNode s =
     (let s1 = s\<lparr>audioSourcesRef := removeAll sourceNode (audioSourcesRef s)\<rparr>;
          newCount = max 0 (activeAudioSources s1 - 1);
          s2 = (if newCount = 0 then stopAnimation s1 else s1)
      in s2\<lparr>activeAudioSources := newCount\<rparr>)"

text \<open>The first audio chunk starts the animation loop, if there are mouth coordinates.\<close>

definition startLoop :: "env \<Rightarrow> browser \<Rightarrow> conv \<Rightarrow> conv" where
  "startLoop e b s =
     (if animationFrameIdRef s = None \<and> mouthCoordinates e \<noteq> None
      then animateMouth e b s else s)"

text \<open>
  The body of the audio branch of \<^verbatim>\<open>onmessage\<close>.  When the decoder throws, the \<^verbatim>\<open>async\<close>
  handler is rejected at its \<^verbatim>\<open>await\<close> and nothing after it runs.  Each handler runs to
  its end before the next event is handled.
\<close>

definition playAudio :: "env \<Rightarrow> browser \<Rightarrow> 8 word list \<Rightarrow> conv \<Rightarrow> outcome \<times> conv" where
  "playAudio e b payload s =
     (let s1 = startLoop e b s;
          s2 = s1\<lparr>nextStartTimeRef := max (nextStartTimeRef s1) (currentTime b)\<rparr>
      in case decodeAudioData e payload of
           None \<Rightarrow> (Rejected, s2)
         | Some duration \<Rightarrow>
             (let sourceNode = nodeCounter s2;
                  s3 = s2\<lparr>nodeCounter := Suc sourceNode,
                          activeAudioSources := activeAudioSources s2 + 1\<rparr>;
                  s4 = emit [SourceStart sourceNode (nextStartTimeRef s3)] s3
              in (Completed,
                  s4\<lparr>nextStartTimeRef := nextStartTimeRef s4 + duration,
                     audioSourcesRef := audioSourcesRef s4 @ [sourceNode]\<rparr>)))"

definition handleInterrupted :: "conv \<Rightarrow> conv" where
  "handleInterrupted s =
     stopAnimation ((stopSources s)\<lparr>activeAudioSources := 0, nextStartTimeRef := 0\<rparr>)"

definition appendTranscriptions :: "message \<Rightarrow> conv \<Rightarrow> conv" where
  "appendTranscriptions m s =
     (let s1 = (case inputTranscription m of
                  None \<Rightarrow> s
                | Some t \<Rightarrow> s\<lparr>currentInputTranscriptionRef :=
                                 currentInputTranscriptionRef s @ t\<rparr>)
      in case outputTranscription m of
           None \<Rightarrow> s1
         | Some t \<Rightarrow> s1\<lparr>currentOutputTranscriptionRef :=
                          currentOutputTranscriptionRef s1 @ t\<rparr>)"

definition newEntries :: "jsstring \<Rightarrow> jsstring \<Rightarrow> TranscriptEntry list" where
  "newEntries fullInput fullOutput =
     (if fullInput \<noteq> [] then [\<lparr>speaker = User, entry_text = fullInput\<rparr>] else [])
     @ (if fullOutput \<noteq> [] then [\<lparr>speaker = Model, entry_text = fullOutput\<rparr>] else [])"

definition handleTurnComplete :: "conv \<Rightarrow> conv" where
  "handleTurnComplete s =
     (let fullInput = trim (currentInputTranscriptionRef s);
          fullOutput = trim (currentOutputTranscriptionRef s)
      in s\<lparr>transcript := transcript s @ newEntries fullInput fullOutput,
           currentInputTranscriptionRef := [],
           currentOutputTranscriptionRef := []\<rparr>)"

text \<open>The part of \<^verbatim>\<open>onmessage\<close> after the audio branch.\<close>

definition afterAudio :: "message \<Rightarrow> conv \<Rightarrow> conv" where
  "afterAudio m s =
     (let s1 = (if interrupted m then handleInterrupted s else s);
          s2 = appendTranscriptions m s1
      in if turnComplete m then handleTurnComplete s2 else s2)"

text \<open>
  The handler.  When its first line throws, nothing has been done and nothing after it
  runs.  An empty string is falsy, so an empty chunk is no chunk.
\<close>

definition onmessage :: "env \<Rightarrow> browser \<Rightarrow> message \<Rightarrow> conv \<Rightarrow> outcome \<times> conv" where
  "onmessage e b m s =
     (case audioData m of
        Inl err \<Rightarrow> (Rejected, s)
      | Inr None \<Rightarrow> (Completed, afterAudio m s)
      | Inr (Some payload) \<Rightarrow>
          if payload \<noteq> [] \<and> outputAudioContextRef s \<noteq> None \<and> analyserNodeRef s
          then (case playAudio e b payload s of
                  (Rejected, s1) \<Rightarrow> (Rejected, s1)
                | (Completed, s1) \<Rightarrow> (Completed, afterAudio m s1))
          else (Completed, afterAudio m s))"

definition onerror :: "conv \<Rightarrow> conv" where
  "onerror s = stopAudioProcessing (setStatus Error s)"

definition onclose :: "conv \<Rightarrow> conv" where
  "onclose s = stopAudioProcessing s"

section \<open>Runs of a conversation\<close>

text \<open>
  What can happen to a started conversation.  A frame callback runs only when a request
  is pending, and a source node ends only when it exists.
\<close>

datatype event =
    OnOpen
  | OnMessage browser message
  | OnEnded nat
  | OnFrame browser
  | OnError
  | OnClose
  | EndClicked

fun handle :: "env \<Rightarrow> event \<Rightarrow> conv \<Rightarrow> conv" where
  "handle e OnOpen s = onopen s"
| "handle e (OnMessage b m) s = snd (onmessage e b m s)"
| "handle e (OnEnded n) s = (if n < nodeCounter s then onended n s else s)"
| "handle e (OnFrame b) s =
     (case pendingFrames s of
        [] \<Rightarrow> s
      | i # rest \<Rightarrow> animateMouth e b (s\<lparr>pendingFrames := rest\<rparr>))"
| "handle e OnError s = onerror s"
| "handle e OnClose s = onclose s"
| "handle e EndClicked s = endConversation s"

definition run :: "env \<Rightarrow> event list \<Rightarrow> conv \<Rightarrow> conv" where
  "run e evs s = fold (handle e) evs s"

text \<open>The start times of the sources, in the order of the calls of \<^verbatim>\<open>start\<close>.\<close>

fun startTimes :: "effect list \<Rightarrow> real list" where
  "startTimes [] = []"
| "startTimes (SourceStart n t # es) = t # startTimes es"
| "startTimes (x # es) = startTimes es"

text \<open>Frames \<open>f 0\<close>, \<dots>, \<open>f (n - 1)\<close> of the animation loop, one after the other.\<close>

definition playFrames :: "env \<Rightarrow> (nat \<Rightarrow> browser) \<Rightarrow> nat \<Rightarrow> conv \<Rightarrow> conv" where
  "playFrames e f n s = fold (animateMouth e) (map f [0..<n]) s"

text \<open>
  The reading of the audio data does not throw, and the message carries no audio chunk
  or its chunk decodes.
\<close>

definition decodes :: "env \<Rightarrow> message \<Rightarrow> bool" where
  "decodes e m =
     (case audioData m of
        Inl err \<Rightarrow> False
      | Inr None \<Rightarrow> True
      | Inr (Some payload) \<Rightarrow> payload = [] \<or> decodeAudioData e payload \<noteq> None)"


text \<open>Events that leave the turn open: every message decodes and none completes the turn.\<close>

fun withinTurn :: "env \<Rightarrow> event \<Rightarrow> bool" where
  "withinTurn e (OnMessage b m) = (decodes e m \<and> \<not> turnComplete m)"
| "withinTurn e ev = True"

text \<open>The transcription fragments of a run, in the order of arrival.\<close>

fun inputFragments :: "event list \<Rightarrow> jsstring" where
  "inputFragments [] = []"
| "inputFragments (OnMessage b m # evs) =
     (case inputTranscription m of None \<Rightarrow> [] | Some t \<Rightarrow> t) @ inputFragments evs"
| "inputFragments (ev # evs) = inputFragments evs"

fun outputFragments :: "event list \<Rightarrow> jsstring" where
  "outputFragments [] = []"
| "outputFragments (OnMessage b m # evs) =
     (case outputTranscription m of None \<Rightarrow> [] | Some t \<Rightarrow> t) @ outputFragments evs"
| "outputFragments (ev # evs) = outputFragments evs"

text \<open>Calls that only the running animation loop makes, and calls on source nodes.\<close>

fun animationEffect :: "effect \<Rightarrow> bool" where
  "animationEffect (RequestAnimationFrame i) = True"
| "animationEffect (DrawImageTop sy dy) = True"
| "animationEffect (DrawImageJaw sy dy) = True"
| "animationEffect (DrawImageGap sy dy h) = True"
| "animationEffect x = False"

fun sourceEffect :: "effect \<Rightarrow> bool" where
  "sourceEffect (SourceStart n t) = True"
| "sourceEffect (SourceStop n) = True"
| "sourceEffect x = False"

definition noAnimation :: "conv \<Rightarrow> bool" where
  "noAnimation s =
     (animationFrameIdRef s = None \<and> pendingFrames s = []
      \<and> (\<forall>x \<in> set (effects s). \<not> animationEffect x))"

text \<open>What playback consists of: the calls on source nodes and the scheduler's state.\<close>

definition playback :: "conv \<Rightarrow> effect list \<times> real \<times> nat list \<times> int" where
  "playback s =
     (filter sourceEffect (effects s), nextStartTimeRef s, audioSourcesRef s,
      activeAudioSources s)"

text \<open>Playback together with what the audio branch of the message handler reads.\<close>

definition audioView ::
  "conv \<Rightarrow> (effect list \<times> real \<times> nat list \<times> int) \<times> nat \<times> context_state option \<times> bool" where
  "audioView s = (playback s, nodeCounter s, outputAudioContextRef s, analyserNodeRef s)"

section \<open>App: preparing a conversation\<close>

datatype AppState = Upload | Generating | Conversation

datatype voice = Zephyr | Kore

record app =
  appState :: AppState
  photoUrl :: "jsstring option"
  personalityPrompt :: "jsstring option"
  voiceName :: voice
  app_mouthCoordinates :: "MouthCoordinates option"
  app_error :: "jsstring option"

definition initialApp :: app where
  "initialApp =
     \<lparr>appState = Upload, photoUrl = None, personalityPrompt = None, voiceName = Zephyr,
      app_mouthCoordinates = None, app_error = None\<rparr>"

text \<open>
  The answer to the mouth-localization request as the inner \<^verbatim>\<open>try\<close> sees it.
  \<open>Unparsable\<close>: the block throws (no text, \<^verbatim>\<open>JSON.parse\<close> fails, or the value is
  \<^verbatim>\<open>null\<close>).  \<open>Parsed x y w h\<close>: a value was parsed; each field is a number, or \<open>None\<close>
  when it is missing or \<^verbatim>\<open>null\<close>.  The response schema asks for numbers, and other
  kinds of values are not modelled.
\<close>

datatype mouth_response =
  Unparsable | Parsed "real option" "real option" "real option" "real option"

datatype gender_response = GenderUnparsable | Gender jsstring

text \<open>
  What the outside gives to one call of \<^verbatim>\<open>handleStartJourney\<close>; \<open>None\<close> for a request
  means that its promise is rejected.
\<close>

record journey =
  photoBase64 :: "jsstring option"
  objectUrl :: jsstring
  personaResponse :: "jsstring option"
  mouthCoordsResponse :: "mouth_response option"
  mediaFile :: bool
  genderResponse :: "gender_response option"

definition journeyFailed :: "app \<Rightarrow> app" where
  "journeyFailed a =
     a\<lparr>app_error := Some (str ''Could not generate a persona. Please check your API key and try again.''),
       appState := Upload\<rparr>"

text \<open>The inner \<^verbatim>\<open>try\<close> around the parsing of the mouth coordinates.\<close>

definition parseMouthCoordinates :: "mouth_response \<Rightarrow> app \<Rightarrow> app" where
  "parseMouthCoordinates r a =
     (case r of
        Unparsable \<Rightarrow> a\<lparr>app_mouthCoordinates := None\<rparr>
      | Parsed (Some x) (Some y) (Some w) (Some h) \<Rightarrow>
          if x \<noteq> 0 \<and> y \<noteq> 0 \<and> w \<noteq> 0 \<and> h \<noteq> 0
          then a\<lparr>app_mouthCoordinates :=
                   Some \<lparr>coord_x = x, coord_y = y, coord_width = w, coord_height = h\<rparr>\<rparr>
          else a
      | Parsed x y w h \<Rightarrow> a)"

definition selectVoice :: "gender_response \<Rightarrow> app \<Rightarrow> app" where
  "selectVoice g a =
     (case g of
        GenderUnparsable \<Rightarrow> a\<lparr>voiceName := Zephyr\<rparr>
      | Gender gender \<Rightarrow>
          if gender = str ''female'' then a\<lparr>voiceName := Kore\<rparr> else a\<lparr>voiceName := Zephyr\<rparr>)"

definition handleStartJourney :: "journey \<Rightarrow> app \<Rightarrow> app" where
  "handleStartJourney j a =
     (let a0 = a\<lparr>appState := Generating, app_error := None\<rparr> in
      case photoBase64 j of
        None \<Rightarrow> journeyFailed a0
      | Some data \<Rightarrow>
          (let a1 = a0\<lparr>photoUrl := Some (objectUrl j)\<rparr> in
           case personaResponse j of
             None \<Rightarrow> journeyFailed a1
           | Some generatedPrompt \<Rightarrow>
               (let a2 = a1\<lparr>personalityPrompt := Some generatedPrompt\<rparr> in
                case mouthCoordsResponse j of
                  None \<Rightarrow> journeyFailed a2
                | Some r \<Rightarrow>
                    (let a3 = parseMouthCoordinates r a2 in
                     if \<not> mediaFile j
                     then (case genderResponse j of
                             None \<Rightarrow> journeyFailed a3
                           | Some g \<Rightarrow> (selectVoice g a3)\<lparr>appState := Conversation\<rparr>)
                     else a3\<lparr>voiceName := Zephyr, appState := Conversation\<rparr>))))"

definition handleEndConversation :: "app \<Rightarrow> app" where
  "handleEndConversation a =
     a\<lparr>appState := Upload, photoUrl := None, personalityPrompt := None, app_error := None,
       app_mouthCoordinates := None\<rparr>"

text \<open>
  The \<open>mouthCoordinates\<close> prop that \<^verbatim>\<open>renderContent\<close> passes to the conversation view;
  \<open>None\<close> while no conversation view is rendered.
\<close>

definition truthyString :: "jsstring option \<Rightarrow> bool" where
  "truthyString v = (case v of None \<Rightarrow> False | Some t \<Rightarrow> t \<noteq> [])"

definition conversationProps :: "app \<Rightarrow> MouthCoordinates option option" where
  "conversationProps a =
     (if appState a = Conversation \<and> truthyString (photoUrl a)
         \<and> truthyString (personalityPrompt a)
      then Some (app_mouthCoordinates a) else None)"

section \<open>A concrete conversation\<close>

text \<open>
  A portrait of 600 by 800 pixels on a canvas of 300 by 400, with the mouth region at
  60 percent of the height and 10 percent high; a session that has opened.
\<close>

definition demoCanvas :: canvas where
  "demoCanvas = \<lparr>canvas_width = 300, canvas_height = 400, context2d = True\<rparr>"

definition demoImage :: image where
  "demoImage = \<lparr>img_width = 600, img_height = 800\<rparr>"

definition demoCoords :: MouthCoordinates where
  "demoCoords = \<lparr>coord_x = 40, coord_y = 60, coord_width = 20, coord_height = 10\<rparr>"

definition demoEnv :: env where
  "demoEnv = \<lparr>mouthCoordinates = Some demoCoords, decodeAudioData = decodeAudioData_spec\<rparr>"

definition liveConv :: conv where
  "liveConv = onopen (startConversation None (mount demoCanvas demoImage))"

text \<open>
  Analyser windows of 256 bytes: silence (every byte at the zero point 128) and a square
  wave between 32 and 224, that is between -0.75 and 0.75.
\<close>

definition silentFrame :: browser where
  "silentFrame = \<lparr>currentTime = 0, byteTimeDomainData = replicate 256 128\<rparr>"

definition loudFrame :: browser where
  "loudFrame = \<lparr>currentTime = 0, byteTimeDomainData = concat (replicate 128 [32, 224])\<rparr>"


text \<open>
  A chunk of 4800 bytes, that is 2400 samples or a tenth of a second, and a chunk of
  three bytes, which is misaligned.
\<close>

definition chunk :: "8 word list" where
  "chunk = replicate 4800 0"

definition brokenChunk :: "8 word list" where
  "brokenChunk = [1, 2, 3]"

definition emptyMessage :: message where
  "emptyMessage =
     \<lparr>modelTurn = None, interrupted = False, inputTranscription = None,
      outputTranscription = None, turnComplete = False\<rparr>"

definition audioMessage :: "8 word list \<Rightarrow> message" where
  "audioMessage payload = emptyMessage\<lparr>modelTurn := Some (Content (Some [Some payload]))\<rparr>"

text \<open>A message whose model turn has no parts.\<close>

definition partlessMessage :: message where
  "partlessMessage = emptyMessage\<lparr>modelTurn := Some (Content None)\<rparr>"

definition atTime :: "real \<Rightarrow> browser" where
  "atTime t = \<lparr>currentTime = t, byteTimeDomainData = replicate 256 128\<rparr>"

text \<open>
  The opened session after two chunks, the second arriving while the first still plays.
\<close>

definition playing :: conv where
  "playing =
     run demoEnv
       [OnMessage (atTime 0) (audioMessage chunk),
        OnMessage (atTime (1 / 20)) (audioMessage chunk)]
       liveConv"

text \<open>
  Two journeys with a photo and no reference media.  In the first the mouth is found
  and the gender request is rejected; in the second the mouth response has \<open>x = 0\<close>.
\<close>

definition firstJourney :: journey where
  "firstJourney =
     \<lparr>photoBase64 = Some (str ''AAAA''), objectUrl = str ''blob:1'',
      personaResponse = Some (str ''You are a baker.''),
      mouthCoordsResponse = Some (Parsed (Some 40) (Some 60) (Some 20) (Some 10)),
      mediaFile = False, genderResponse = None\<rparr>"

definition secondJourney :: journey where
  "secondJourney =
     \<lparr>photoBase64 = Some (str ''BBBB''), objectUrl = str ''blob:2'',
      personaResponse = Some (str ''You are a sailor.''),
      mouthCoordsResponse = Some (Parsed (Some 0) (Some 55) (Some 30) (Some 12)),
      mediaFile = False, genderResponse = Some (Gender (str ''male''))\<rparr>"

section \<open>What each operation leaves alone\<close>

lemma emit_fields [simp]:
  "status (emit es s) = status s" "transcript (emit es s) = transcript s"
  "activeAudioSources (emit es s) = activeAudioSources s"
  "sessionPromiseRef (emit es s) = sessionPromiseRef s"
  "inputAudioContextRef (emit es s) = inputAudioContextRef s"
  "outputAudioContextRef (emit es s) = outputAudioContextRef s"
  "audioStreamRef (emit es s) = audioStreamRef s"
  "scriptProcessorRef (emit es s) = scriptProcessorRef s"
  "mediaStreamSourceRef (emit es s) = mediaStreamSourceRef s"
  "nextStartTimeRef (emit es s) = nextStartTimeRef s"
  "audioSourcesRef (emit es s) = audioSourcesRef s"
  "analyserNodeRef (emit es s) = analyserNodeRef s"
  "animationFrameIdRef (emit es s) = animationFrameIdRef s"
  "canvasRef (emit es s) = canvasRef s" "imageRef (emit es s) = imageRef s"
  "smoothedVolumeRef (emit es s) = smoothedVolumeRef s"
  "currentInputTranscriptionRef (emit es s) = currentInputTranscriptionRef s"
  "currentOutputTranscriptionRef (emit es s) = currentOutputTranscriptionRef s"
  "nodeCounter (emit es s) = nodeCounter s" "frameCounter (emit es s) = frameCounter s"
  "pendingFrames (emit es s) = pendingFrames s"
  "effects (emit es s) = effects s @ es"
  by (simp_all add: emit_def)

lemma cancelAnimation_fields [simp]:
  "status (cancelAnimation s) = status s" "transcript (cancelAnimation s) = transcript s"
  "activeAudioSources (cancelAnimation s) = activeAudioSources s"
  "sessionPromiseRef (cancelAnimation s) = sessionPromiseRef s"
  "inputAudioContextRef (cancelAnimation s) = inputAudioContextRef s"
  "outputAudioContextRef (cancelAnimation s) = outputAudioContextRef s"
  "audioStreamRef (cancelAnimation s) = audioStreamRef s"
  "scriptProcessorRef (cancelAnimation s) = scriptProcessorRef s"
  "mediaStreamSourceRef (cancelAnimation s) = mediaStreamSourceRef s"
  "nextStartTimeRef (cancelAnimation s) = nextStartTimeRef s"
  "audioSourcesRef (cancelAnimation s) = audioSourcesRef s"
  "analyserNodeRef (cancelAnimation s) = analyserNodeRef s"
  "canvasRef (cancelAnimation s) = canvasRef s" "imageRef (cancelAnimation s) = imageRef s"
  "smoothedVolumeRef (cancelAnimation s) = smoothedVolumeRef s"
  "currentInputTranscriptionRef (cancelAnimation s) = currentInputTranscriptionRef s"
  "currentOutputTranscriptionRef (cancelAnimation s) = currentOutputTranscriptionRef s"
  "nodeCounter (cancelAnimation s) = nodeCounter s"
  "frameCounter (cancelAnimation s) = frameCounter s"
  by (simp_all add: cancelAnimation_def split: option.splits)

lemma stopAnimation_fields [simp]:
  "status (stopAnimation s) = status s" "transcript (stopAnimation s) = transcript s"
  "activeAudioSources (stopAnimation s) = activeAudioSources s"
  "sessionPromiseRef (stopAnimation s) = sessionPromiseRef s"
  "inputAudioContextRef (stopAnimation s) = inputAudioContextRef s"
  "outputAudioContextRef (stopAnimation s) = outputAudioContextRef s"
  "audioStreamRef (stopAnimation s) = audioStreamRef s"
  "scriptProcessorRef (stopAnimation s) = scriptProcessorRef s"
  "mediaStreamSourceRef (stopAnimation s) = mediaStreamSourceRef s"
  "nextStartTimeRef (stopAnimation s) = nextStartTimeRef s"
  "audioSourcesRef (stopAnimation s) = audioSourcesRef s"
  "analyserNodeRef (stopAnimation s) = analyserNodeRef s"
  "canvasRef (stopAnimation s) = canvasRef s" "imageRef (stopAnimation s) = imageRef s"
  "smoothedVolumeRef (stopAnimation s) = smoothedVolumeRef s"
  "currentInputTranscriptionRef (stopAnimation s) = currentInputTranscriptionRef s"
  "currentOutputTranscriptionRef (stopAnimation s) = currentOutputTranscriptionRef s"
  "nodeCounter (stopAnimation s) = nodeCounter s"
  "frameCounter (stopAnimation s) = frameCounter s"
  by (simp_all add: stopAnimation_def Let_def split: option.splits)

lemma requestAnimationFrame_fields [simp]:
  "status (requestAnimationFrame s) = status s"
  "transcript (requestAnimationFrame s) = transcript s"
  "activeAudioSources (requestAnimationFrame s) = activeAudioSources s"
  "sessionPromiseRef (requestAnimationFrame s) = sessionPromiseRef s"
  "inputAudioContextRef (requestAnimationFrame s) = inputAudioContextRef s"
  "outputAudioContextRef (requestAnimationFrame s) = outputAudioContextRef s"
  "audioStreamRef (requestAnimationFrame s) = audioStreamRef s"
  "scriptProcessorRef (requestAnimationFrame s) = scriptProcessorRef s"
  "mediaStreamSourceRef (requestAnimationFrame s) = mediaStreamSourceRef s"
  "nextStartTimeRef (requestAnimationFrame s) = nextStartTimeRef s"
  "audioSourcesRef (requestAnimationFrame s) = audioSourcesRef s"
  "analyserNodeRef (requestAnimationFrame s) = analyserNodeRef s"
  "canvasRef (requestAnimationFrame s) = canvasRef s"
  "imageRef (requestAnimationFrame s) = imageRef s"
  "smoothedVolumeRef (requestAnimationFrame s) = smoothedVolumeRef s"
  "currentInputTranscriptionRef (requestAnimationFrame s) = currentInputTranscriptionRef s"
  "currentOutputTranscriptionRef (requestAnimationFrame s) = currentOutputTranscriptionRef s"
  "nodeCounter (requestAnimationFrame s) = nodeCounter s"
  "effects (requestAnimationFrame s) = effects s @ [RequestAnimationFrame (frameCounter s)]"
  by (simp_all add: requestAnimationFrame_def)

lemma animateMouth_fields [simp]:
  "status (animateMouth e b s) = status s"
  "transcript (animateMouth e b s) = transcript s"
  "activeAudioSources (animateMouth e b s) = activeAudioSources s"
  "sessionPromiseRef (animateMouth e b s) = sessionPromiseRef s"
  "inputAudioContextRef (animateMouth e b s) = inputAudioContextRef s"
  "outputAudioContextRef (animateMouth e b s) = outputAudioContextRef s"
  "audioStreamRef (animateMouth e b s) = audioStreamRef s"
  "scriptProcessorRef (animateMouth e b s) = scriptProcessorRef s"
  "mediaStreamSourceRef (animateMouth e b s) = mediaStreamSourceRef s"
  "nextStartTimeRef (animateMouth e b s) = nextStartTimeRef s"
  "audioSourcesRef (animateMouth e b s) = audioSourcesRef s"
  "analyserNodeRef (animateMouth e b s) = analyserNodeRef s"
  "canvasRef (animateMouth e b s) = canvasRef s"
  "imageRef (animateMouth e b s) = imageRef s"
  "currentInputTranscriptionRef (animateMouth e b s) = currentInputTranscriptionRef s"
  "currentOutputTranscriptionRef (animateMouth e b s) = currentOutputTranscriptionRef s"
  "nodeCounter (animateMouth e b s) = nodeCounter s"
  by (simp_all add: animateMouth_def Let_def split: option.splits)

lemma stopSources_fields [simp]:
  "status (stopSources s) = status s" "transcript (stopSources s) = transcript s"
  "activeAudioSources (stopSources s) = activeAudioSources s"
  "sessionPromiseRef (stopSources s) = sessionPromiseRef s"
  "inputAudioContextRef (stopSources s) = inputAudioContextRef s"
  "outputAudioContextRef (stopSources s) = outputAudioContextRef s"
  "audioStreamRef (stopSources s) = audioStreamRef s"
  "scriptProcessorRef (stopSources s) = scriptProcessorRef s"
  "mediaStreamSourceRef (stopSources s) = mediaStreamSourceRef s"
  "nextStartTimeRef (stopSources s) = nextStartTimeRef s"
  "audioSourcesRef (stopSources s) = []"
  "analyserNodeRef (stopSources s) = analyserNodeRef s"
  "animationFrameIdRef (stopSources s) = animationFrameIdRef s"
  "canvasRef (stopSources s) = canvasRef s" "imageRef (stopSources s) = imageRef s"
  "smoothedVolumeRef (stopSources s) = smoothedVolumeRef s"
  "currentInputTranscriptionRef (stopSources s) = currentInputTranscriptionRef s"
  "currentOutputTranscriptionRef (stopSources s) = currentOutputTranscriptionRef s"
  "nodeCounter (stopSources s) = nodeCounter s" "frameCounter (stopSources s) = frameCounter s"
  "pendingFrames (stopSources s) = pendingFrames s"
  "effects (stopSources s) = effects s @ map SourceStop (audioSourcesRef s)"
  by (simp_all add: stopSources_def)

lemma effects_cancelAnimation:
  "\<exists>es. effects (cancelAnimation s) = effects s @ es \<and> (\<forall>x\<in>set es. \<not> sourceEffect x \<and> \<not> animationEffect x)"
  by (simp add: cancelAnimation_def split: option.splits)

lemma effects_stopAnimation:
  "\<exists>es. effects (stopAnimation s) = effects s @ es \<and> (\<forall>x\<in>set es. \<not> sourceEffect x \<and> \<not> animationEffect x)"
proof -
  obtain es where es: "effects (cancelAnimation s) = effects s @ es"
      "\<forall>x\<in>set es. \<not> sourceEffect x \<and> \<not> animationEffect x"
    using effects_cancelAnimation by blast
  show ?thesis
    by (cases "canvasRef s"; cases "imageRef s")
      (use es in \<open>auto simp: stopAnimation_def Let_def\<close>)
qed

lemma setStatus_fields [simp]:
  "status (setStatus st s) = st" "transcript (setStatus st s) = transcript s"
  "activeAudioSources (setStatus st s) = activeAudioSources s"
  "sessionPromiseRef (setStatus st s) = sessionPromiseRef s"
  "inputAudioContextRef (setStatus st s) = inputAudioContextRef s"
  "outputAudioContextRef (setStatus st s) = outputAudioContextRef s"
  "audioStreamRef (setStatus st s) = audioStreamRef s"
  "scriptProcessorRef (setStatus st s) = scriptProcessorRef s"
  "mediaStreamSourceRef (setStatus st s) = mediaStreamSourceRef s"
  "nextStartTimeRef (setStatus st s) = nextStartTimeRef s"
  "audioSourcesRef (setStatus st s) = audioSourcesRef s"
  "analyserNodeRef (setStatus st s) = analyserNodeRef s"
  "animationFrameIdRef (setStatus st s) = animationFrameIdRef s"
  "canvasRef (setStatus st s) = canvasRef s" "imageRef (setStatus st s) = imageRef s"
  "smoothedVolumeRef (setStatus st s) = smoothedVolumeRef s"
  "currentInputTranscriptionRef (setStatus st s) = currentInputTranscriptionRef s"
  "currentOutputTranscriptionRef (setStatus st s) = currentOutputTranscriptionRef s"
  "nodeCounter (setStatus st s) = nodeCounter s" "frameCounter (setStatus st s) = frameCounter s"
  "pendingFrames (setStatus st s) = pendingFrames s"
  "effects (setStatus st s) = effects s @ [SetStatus st]"
  by (simp_all add: setStatus_def)

lemma stopAudioProcessing_fields [simp]:
  "status (stopAudioProcessing s) = status s"
  "transcript (stopAudioProcessing s) = transcript s"
  "activeAudioSources (stopAudioProcessing s) = activeAudioSources s"
  "sessionPromiseRef (stopAudioProcessing s) = sessionPromiseRef s"
  "nextStartTimeRef (stopAudioProcessing s) = nextStartTimeRef s"
  "audioSourcesRef (stopAudioProcessing s) = audioSourcesRef s"
  "analyserNodeRef (stopAudioProcessing s) = analyserNodeRef s"
  "animationFrameIdRef (stopAudioProcessing s) = animationFrameIdRef s"
  "canvasRef (stopAudioProcessing s) = canvasRef s"
  "imageRef (stopAudioProcessing s) = imageRef s"
  "smoothedVolumeRef (stopAudioProcessing s) = smoothedVolumeRef s"
  "currentInputTranscriptionRef (stopAudioProcessing s) = currentInputTranscriptionRef s"
  "currentOutputTranscriptionRef (stopAudioProcessing s) = currentOutputTranscriptionRef s"
  "nodeCounter (stopAudioProcessing s) = nodeCounter s"
  "frameCounter (stopAudioProcessing s) = frameCounter s"
  "pendingFrames (stopAudioProcessing s) = pendingFrames s"
  by (simp_all add: stopAudioProcessing_def Let_def)

section \<open>The concrete conversation, evaluated\<close>

lemma liveConv_eq:
  "liveConv =
     \<lparr>status = Live, transcript = [], activeAudioSources = 0, sessionPromiseRef = True,
      inputAudioContextRef = Some Running, outputAudioContextRef = Some Running,
      audioStreamRef = True, scriptProcessorRef = True, mediaStreamSourceRef = True,
      nextStartTimeRef = 0, audioSourcesRef = [], analyserNodeRef = True,
      animationFrameIdRef = None, canvasRef = Some demoCanvas, imageRef = Some demoImage,
      smoothedVolumeRef = 0, currentInputTranscriptionRef = [],
      currentOutputTranscriptionRef = [], nodeCounter = 0, frameCounter = 1,
      pendingFrames = [],
      effects = [DrawImage, SetStatus Connecting, SetStatus Live]\<rparr>"
  by (simp add: liveConv_def onopen_def startConversation_def mount_def initialConv_def
      setStatus_def emit_def demoCanvas_def Let_def)

lemma rms_silent: "rms (byteTimeDomainData silentFrame) = 0"
  by (simp add: rms_def silentFrame_def normSample_def sum_list_replicate)

lemma sum_list_concat_replicate:
  "sum_list (map f (concat (replicate n xs))) = real n * sum_list (map f xs)"
  by (induction n) (simp_all add: algebra_simps)

lemma rms_loud: "rms (byteTimeDomainData loudFrame) = 3 / 4"
proof -
  have "sum_list (map (\<lambda>a. normSample a * normSample a) (byteTimeDomainData loudFrame)) / real (length (byteTimeDomainData loudFrame)) = (3/4)\<^sup>2"
    by (simp add: loudFrame_def normSample_def sum_list_concat_replicate length_concat sum_list_replicate power2_eq_square)
  then have "rms (byteTimeDomainData loudFrame) = sqrt ((3/4)\<^sup>2)"
    by (simp only: rms_def)
  then show ?thesis by simp
qed

section \<open>The animation frame\<close>

text \<open>A frame that passes the guards of \<^verbatim>\<open>animateMouth\<close>, in one equation.\<close>

lemma animateMouth_frame:
  assumes "canvasRef s = Some c" and "imageRef s = Some img"
    and "mouthCoordinates e = Some coords" and "analyserNodeRef s" and "context2d c"
  shows "animateMouth e b s =
           requestAnimationFrame
             (emit (ClearRect # drawFrame c img coords
                      (smoothedVolumeRef s * (1 - smoothingFactor)
                       + effectiveVolume (byteTimeDomainData b) * smoothingFactor))
                (s\<lparr>smoothedVolumeRef := smoothedVolumeRef s * (1 - smoothingFactor)
                       + effectiveVolume (byteTimeDomainData b) * smoothingFactor\<rparr>))"
  using assms by (simp add: animateMouth_def Let_def)

lemma effects_requestAnimationFrame:
  "effects (requestAnimationFrame s) = effects s @ [RequestAnimationFrame (frameCounter s)]"
  by (simp add: requestAnimationFrame_def emit_def)


lemma effectiveVolume_quiet:
  "rms d \<le> volumeThreshold \<Longrightarrow> effectiveVolume d = 0"
  by (simp add: effectiveVolume_def)

lemma smoothed_animateMouth:
  assumes "canvasRef s = Some c" and "imageRef s = Some img"
    and "mouthCoordinates e = Some coords" and "analyserNodeRef s" and "context2d c"
  shows "smoothedVolumeRef (animateMouth e b s) =
           smoothedVolumeRef s * (1 - smoothingFactor)
           + effectiveVolume (byteTimeDomainData b) * smoothingFactor"
  by (simp add: animateMouth_frame [OF assms] emit_def)

lemma effects_animateMouth:
  assumes "canvasRef s = Some c" and "imageRef s = Some img"
    and "mouthCoordinates e = Some coords" and "analyserNodeRef s" and "context2d c"
  shows "effects (animateMouth e b s) =
           effects s @ ClearRect # drawFrame c img coords (smoothedVolumeRef (animateMouth e b s))
           @ [RequestAnimationFrame (frameCounter s)]"
  by (simp add: smoothed_animateMouth [OF assms] animateMouth_frame [OF assms]
      effects_requestAnimationFrame emit_def)

lemma guards_animateMouth:
  "canvasRef (animateMouth e b s) = canvasRef s \<and> imageRef (animateMouth e b s) = imageRef s
   \<and> analyserNodeRef (animateMouth e b s) = analyserNodeRef s"
  by (simp add: animateMouth_def requestAnimationFrame_def emit_def Let_def
      split: option.splits)

text \<open>
  C6, as amended.  In a frame whose RMS loudness is not above the threshold, the frame
  itself contributes no loudness: the smoothed loudness is its previous value times
  \<open>1 - smoothingFactor\<close>, and the frame is drawn from that decayed value.  When the
  smoothed loudness was zero before the frame, the mouth displacement is zero and the
  unmodified portrait is drawn.
\<close>

theorem quiet_frame_only_decays:
  assumes "canvasRef s = Some c" and "imageRef s = Some img"
    and "mouthCoordinates e = Some coords" and "analyserNodeRef s" and "context2d c"
    and "rms (byteTimeDomainData b) \<le> volumeThreshold"
  shows "smoothedVolumeRef (animateMouth e b s) = smoothedVolumeRef s * (1 - smoothingFactor)
         \<and> effects (animateMouth e b s) =
             effects s @ ClearRect
               # drawFrame c img coords (smoothedVolumeRef (animateMouth e b s))
               @ [RequestAnimationFrame (frameCounter s)]
         \<and> (smoothedVolumeRef s = 0 \<longrightarrow>
              mouthOpenness c coords (smoothedVolumeRef (animateMouth e b s)) = 0
              \<and> drawFrame c img coords (smoothedVolumeRef (animateMouth e b s)) = [DrawImage])"
proof -
  have sm: "smoothedVolumeRef (animateMouth e b s) = smoothedVolumeRef s * (1 - smoothingFactor)"
    using assms(6) by (simp add: smoothed_animateMouth [OF assms(1-5)] effectiveVolume_quiet)
  have "effects (animateMouth e b s) =
          effects s @ ClearRect
            # drawFrame c img coords (smoothedVolumeRef (animateMouth e b s))
            @ [RequestAnimationFrame (frameCounter s)]"
    by (rule effects_animateMouth [OF assms(1-5)])
  moreover have "smoothedVolumeRef s = 0 \<longrightarrow>
      mouthOpenness c coords (smoothedVolumeRef (animateMouth e b s)) = 0
      \<and> drawFrame c img coords (smoothedVolumeRef (animateMouth e b s)) = [DrawImage]"
    by (simp add: sm mouthOpenness_def drawFrame_def)
  ultimately show ?thesis using sm by simp
qed

lemma liveConv_guards:
  "canvasRef liveConv = Some demoCanvas" "imageRef liveConv = Some demoImage"
  "mouthCoordinates demoEnv = Some demoCoords" "analyserNodeRef liveConv"
  "context2d demoCanvas"
  by (simp_all add: liveConv_eq demoEnv_def demoCanvas_def)

text \<open>The hypotheses of C6 hold for a silent frame of the opened demo session.\<close>

theorem quiet_frame_only_decays_witness:
  "rms (byteTimeDomainData silentFrame) \<le> volumeThreshold
   \<and> smoothedVolumeRef (animateMouth demoEnv silentFrame liveConv) = 0
   \<and> effects (animateMouth demoEnv silentFrame liveConv) =
       effects liveConv @ [ClearRect, DrawImage, RequestAnimationFrame 1]"
proof -
  have q: "rms (byteTimeDomainData silentFrame) \<le> volumeThreshold"
    by (simp add: rms_silent volumeThreshold_def)
  have z: "smoothedVolumeRef liveConv = 0" and f: "frameCounter liveConv = 1"
    by (simp_all add: liveConv_eq)
  show ?thesis
    using quiet_frame_only_decays [OF liveConv_guards q] q z f by auto
qed

lemma loud_then_live:
  "animateMouth demoEnv loudFrame liveConv =
     liveConv\<lparr>smoothedVolumeRef := 3/16, animationFrameIdRef := Some 1,
       pendingFrames := [1], frameCounter := 2,
       effects := effects liveConv @ [ClearRect, DrawImageTop 520 260, DrawImageJaw 520 302,
                    DrawImageGap 519 260 42, RequestAnimationFrame 1]\<rparr>"
  apply (simp add: animateMouth_frame [OF liveConv_guards] effectiveVolume_def rms_loud
      volumeThreshold_def smoothingFactor_def)
  apply (simp add: liveConv_eq requestAnimationFrame_def emit_def drawFrame_def
      mouthOpenness_def maxOpenness_def dHeight_def jawLineSourceY_def jawLineCanvasY_def
      demoCanvas_def demoImage_def demoCoords_def)
  done


lemma loud_guards:
  "canvasRef (animateMouth demoEnv loudFrame liveConv) = Some demoCanvas"
  "imageRef (animateMouth demoEnv loudFrame liveConv) = Some demoImage"
  "mouthCoordinates demoEnv = Some demoCoords"
  "analyserNodeRef (animateMouth demoEnv loudFrame liveConv)"
  "context2d demoCanvas"
  by (simp_all add: guards_animateMouth liveConv_guards)

text \<open>
  C7.  The code names \<open>maxOpenness\<close>, 0.7 of the height of the mouth region, as the most
  the mouth can open, but multiplies it by eight times the smoothed loudness without a
  cap.  In the first frame of a square wave of amplitude 0.75 the smoothed loudness is
  3/16 and the jaw is drawn 42 pixels down, where \<open>maxOpenness\<close> is 28.
\<close>

theorem jaw_drop_exceeds_maxOpenness:
  "maxOpenness demoCanvas demoCoords = 28
   \<and> mouthOpenness demoCanvas demoCoords
        (smoothedVolumeRef (animateMouth demoEnv loudFrame liveConv)) = 42
   \<and> effects (animateMouth demoEnv loudFrame liveConv) =
       effects liveConv @ [ClearRect, DrawImageTop 520 260, DrawImageJaw 520 302,
         DrawImageGap 519 260 42, RequestAnimationFrame 1]"
  by (simp add: loud_then_live)
    (simp add: mouthOpenness_def maxOpenness_def dHeight_def demoCanvas_def demoCoords_def)

text \<open>
  C6 as stated fails: a silent frame right after a loud one has RMS loudness 0, below the
  threshold, and still draws the jaw 31.5 pixels down, because the smoothed loudness
  has only decayed from 3/16 to 9/64.
\<close>

theorem quiet_frame_still_displaced:
  "rms (byteTimeDomainData silentFrame) < volumeThreshold
   \<and> mouthOpenness demoCanvas demoCoords
        (smoothedVolumeRef (animateMouth demoEnv silentFrame
           (animateMouth demoEnv loudFrame liveConv))) = 63 / 2
   \<and> effects (animateMouth demoEnv silentFrame (animateMouth demoEnv loudFrame liveConv)) =
       effects (animateMouth demoEnv loudFrame liveConv)
       @ [ClearRect, DrawImageTop 520 260, DrawImageJaw 520 (583 / 2),
          DrawImageGap 519 260 (63 / 2), RequestAnimationFrame 2]"
proof -
  have sm: "smoothedVolumeRef (animateMouth demoEnv silentFrame
              (animateMouth demoEnv loudFrame liveConv)) = 9 / 64"
    by (simp only: smoothed_animateMouth [OF loud_guards])
      (simp add: effectiveVolume_def rms_silent volumeThreshold_def smoothingFactor_def
        loud_then_live)
  have mo: "mouthOpenness demoCanvas demoCoords (9 / 64) = 63 / 2"
    by (simp add: mouthOpenness_def maxOpenness_def dHeight_def demoCanvas_def demoCoords_def)
  have dr: "drawFrame demoCanvas demoImage demoCoords (9 / 64) =
              [DrawImageTop 520 260, DrawImageJaw 520 (583 / 2), DrawImageGap 519 260 (63 / 2)]"
    by (simp add: drawFrame_def mo)
      (simp add: jawLineSourceY_def jawLineCanvasY_def dHeight_def demoCanvas_def
        demoImage_def demoCoords_def)
  have fc: "frameCounter (animateMouth demoEnv loudFrame liveConv) = 2"
    by (simp add: loud_then_live)
  have "rms (byteTimeDomainData silentFrame) < volumeThreshold"
    by (simp add: rms_silent volumeThreshold_def)
  then show ?thesis
    by (simp add: effects_animateMouth [OF loud_guards] sm mo dr fc)
qed

subsection \<open>Smoothing under constant loudness\<close>

lemma playFrames_0 [simp]: "playFrames e f 0 s = s"
  by (simp add: playFrames_def)

lemma playFrames_Suc [simp]:
  "playFrames e f (Suc n) s = animateMouth e (f n) (playFrames e f n s)"
  by (simp add: playFrames_def)

lemma guards_playFrames:
  "canvasRef (playFrames e f n s) = canvasRef s \<and> imageRef (playFrames e f n s) = imageRef s
   \<and> analyserNodeRef (playFrames e f n s) = analyserNodeRef s"
  by (induction n) (simp_all add: guards_animateMouth)

lemma smooth_step_distance:
  fixes a v :: real
  shows "\<bar>(a * (1 - smoothingFactor) + v * smoothingFactor) - v\<bar> = (1 - smoothingFactor) * \<bar>a - v\<bar>"
proof -
  have "(a * (1 - smoothingFactor) + v * smoothingFactor) - v = (1 - smoothingFactor) * (a - v)"
    by (simp add: algebra_simps)
  then have "\<bar>(a * (1 - smoothingFactor) + v * smoothingFactor) - v\<bar>
      = \<bar>1 - smoothingFactor\<bar> * \<bar>a - v\<bar>"
    by (simp only: abs_mult)
  moreover have "\<bar>1 - smoothingFactor\<bar> = 1 - smoothingFactor"
    by (simp add: smoothingFactor_def)
  ultimately show ?thesis by simp
qed

lemma smooth_step_between:
  fixes a v :: real
  shows "min a v \<le> a * (1 - smoothingFactor) + v * smoothingFactor
       \<and> a * (1 - smoothingFactor) + v * smoothingFactor \<le> max a v"
  by (simp add: smoothingFactor_def min_def max_def)

text \<open>
  Over the reals: while the effective loudness of every frame is one value \<open>v\<close> above
  the threshold, each frame multiplies the distance of the smoothed loudness to \<open>v\<close> by
  \<open>1 - smoothingFactor\<close>, the new smoothed loudness lies between the old one and \<open>v\<close>,
  and the smoothed loudness converges to \<open>v\<close>.
\<close>

lemma smoothing_over_the_reals:
  assumes "canvasRef s = Some c" and "imageRef s = Some img"
    and "mouthCoordinates e = Some coords" and "analyserNodeRef s" and "context2d c"
    and "\<forall>n. effectiveVolume (byteTimeDomainData (f n)) = v" and "volumeThreshold < v"
  shows "(\<forall>n. \<bar>smoothedVolumeRef (playFrames e f (Suc n) s) - v\<bar>
                = (1 - smoothingFactor) * \<bar>smoothedVolumeRef (playFrames e f n s) - v\<bar>
              \<and> (smoothedVolumeRef (playFrames e f n s) \<noteq> v \<longrightarrow>
                   \<bar>smoothedVolumeRef (playFrames e f (Suc n) s) - v\<bar>
                   < \<bar>smoothedVolumeRef (playFrames e f n s) - v\<bar>)
              \<and> min (smoothedVolumeRef (playFrames e f n s)) v
                  \<le> smoothedVolumeRef (playFrames e f (Suc n) s)
              \<and> smoothedVolumeRef (playFrames e f (Suc n) s)
                  \<le> max (smoothedVolumeRef (playFrames e f n s)) v)
         \<and> (\<lambda>n. smoothedVolumeRef (playFrames e f n s)) \<longlonglongrightarrow> v"
proof -
  let ?a = "\<lambda>n. smoothedVolumeRef (playFrames e f n s)"
  have step: "?a (Suc n) = ?a n * (1 - smoothingFactor) + v * smoothingFactor" for n
  proof -
    have g: "canvasRef (playFrames e f n s) = Some c" "imageRef (playFrames e f n s) = Some img"
      "analyserNodeRef (playFrames e f n s)"
      using assms(1,2,4) by (simp_all add: guards_playFrames)
    show ?thesis
      using assms(6)
      by (simp add: smoothed_animateMouth [OF g(1) g(2) assms(3) g(3) assms(5)])
  qed
  have dist: "\<bar>?a (Suc n) - v\<bar> = (1 - smoothingFactor) * \<bar>?a n - v\<bar>" for n
    unfolding step by (rule smooth_step_distance)
  have strict: "?a n \<noteq> v \<longrightarrow> \<bar>?a (Suc n) - v\<bar> < \<bar>?a n - v\<bar>" for n
    unfolding dist by (simp add: smoothingFactor_def)
  have between: "min (?a n) v \<le> ?a (Suc n) \<and> ?a (Suc n) \<le> max (?a n) v" for n
    unfolding step by (rule smooth_step_between)
  have closed: "?a n - v = (1 - smoothingFactor) ^ n * (?a 0 - v)" for n
  proof (induction n)
    case 0
    show ?case by simp
  next
    case (Suc n)
    have "?a (Suc n) - v = (1 - smoothingFactor) * (?a n - v)"
      unfolding step by (simp add: algebra_simps)
    then show ?case using Suc.IH by simp
  qed
  have "(\<lambda>n. (1 - smoothingFactor) ^ n) \<longlonglongrightarrow> 0"
    by (rule LIMSEQ_realpow_zero) (simp_all add: smoothingFactor_def)
  then have "(\<lambda>n. (1 - smoothingFactor) ^ n * (?a 0 - v)) \<longlonglongrightarrow> 0"
    by (rule tendsto_mult_left_zero)
  then have "(\<lambda>n. ?a n - v) \<longlonglongrightarrow> 0"
    by (simp add: closed)
  then have lim: "?a \<longlonglongrightarrow> v"
    by (simp add: LIM_zero_iff)
  from dist strict between lim show ?thesis by blast
qed
section \<open>Messages\<close>

lemma decode_chunk: "decodeAudioData demoEnv chunk = Some (1 / 10)"
  by (simp add: demoEnv_def decodeAudioData_spec_def chunk_def OUTPUT_SAMPLE_RATE_def)

lemma decode_brokenChunk: "decodeAudioData demoEnv brokenChunk = None"
  by (simp add: demoEnv_def decodeAudioData_spec_def brokenChunk_def)

lemma chunk_nonempty: "chunk \<noteq> []"
  by (simp add: chunk_def)

lemma effectiveVolume_atTime: "effectiveVolume (byteTimeDomainData (atTime t)) = 0"
  by (simp add: effectiveVolume_def atTime_def rms_def normSample_def sum_list_replicate)

lemma startLoop_fields [simp]:
  "nextStartTimeRef (startLoop e b s) = nextStartTimeRef s"
  "nodeCounter (startLoop e b s) = nodeCounter s"
  "activeAudioSources (startLoop e b s) = activeAudioSources s"
  "audioSourcesRef (startLoop e b s) = audioSourcesRef s"
  "outputAudioContextRef (startLoop e b s) = outputAudioContextRef s"
  "analyserNodeRef (startLoop e b s) = analyserNodeRef s"
  by (simp_all add: startLoop_def)

lemma playAudio_decoded:
  assumes "decodeAudioData e payload = Some d"
  shows "playAudio e b payload s =
           (Completed,
            (startLoop e b s)
              \<lparr>nextStartTimeRef := max (nextStartTimeRef s) (currentTime b) + d,
               nodeCounter := Suc (nodeCounter s),
               activeAudioSources := activeAudioSources s + 1,
               audioSourcesRef := audioSourcesRef s @ [nodeCounter s],
               effects := effects (startLoop e b s)
                          @ [SourceStart (nodeCounter s)
                               (max (nextStartTimeRef s) (currentTime b))]\<rparr>)"
  using assms
  by (simp add: playAudio_def Let_def emit_def)

lemma onmessage_audio:
  assumes "audioData m = Inr (Some payload)" and "payload \<noteq> []"
    and "outputAudioContextRef s \<noteq> None" and "analyserNodeRef s"
    and "decodeAudioData e payload = Some d"
  shows "onmessage e b m s =
           (Completed,
            afterAudio m
              ((startLoop e b s)
                 \<lparr>nextStartTimeRef := max (nextStartTimeRef s) (currentTime b) + d,
                  nodeCounter := Suc (nodeCounter s),
                  activeAudioSources := activeAudioSources s + 1,
                  audioSourcesRef := audioSourcesRef s @ [nodeCounter s],
                  effects := effects (startLoop e b s)
                             @ [SourceStart (nodeCounter s)
                                  (max (nextStartTimeRef s) (currentTime b))]\<rparr>))"
  using assms by (simp add: onmessage_def playAudio_decoded)

lemma afterAudio_plain:
  "\<not> interrupted m \<Longrightarrow> inputTranscription m = None \<Longrightarrow> outputTranscription m = None
   \<Longrightarrow> \<not> turnComplete m \<Longrightarrow> afterAudio m s = s"
  by (simp add: afterAudio_def appendTranscriptions_def)

lemma audioData_update [simp]:
  "audioData (m\<lparr>interrupted := i\<rparr>) = audioData m"
  "audioData (m\<lparr>turnComplete := t\<rparr>) = audioData m"
  "audioData (m\<lparr>inputTranscription := x\<rparr>) = audioData m"
  "audioData (m\<lparr>outputTranscription := y\<rparr>) = audioData m"
  by (simp_all add: audioData_def)

lemma audioMessage_fields [simp]:
  "audioData (audioMessage p) = Inr (Some p)" "\<not> interrupted (audioMessage p)"
  "inputTranscription (audioMessage p) = None" "outputTranscription (audioMessage p) = None"
  "\<not> turnComplete (audioMessage p)"
  by (simp_all add: audioMessage_def emptyMessage_def audioData_def)

lemma emptyMessage_fields [simp]:
  "audioData emptyMessage = Inr None" "\<not> interrupted emptyMessage"
  "inputTranscription emptyMessage = None" "outputTranscription emptyMessage = None"
  "\<not> turnComplete emptyMessage"
  by (simp_all add: emptyMessage_def audioData_def)

lemma partlessMessage_fields [simp]:
  "audioData partlessMessage = Inl TypeError" "\<not> interrupted partlessMessage"
  "inputTranscription partlessMessage = None" "outputTranscription partlessMessage = None"
  "\<not> turnComplete partlessMessage"
  by (simp_all add: partlessMessage_def emptyMessage_def audioData_def)


lemma onmessage_skips:
  assumes "audioData m \<noteq> Inl TypeError"
    and "\<not> (\<exists>p. audioData m = Inr (Some p) \<and> p \<noteq> []
                \<and> outputAudioContextRef s \<noteq> None \<and> analyserNodeRef s)"
  shows "onmessage e b m s = (Completed, afterAudio m s)"
proof (cases "audioData m")
  case (Inl err)
  then show ?thesis using assms(1) by (cases err) simp
next
  case (Inr v)
  then show ?thesis using assms(2) by (cases v) (auto simp: onmessage_def)
qed

lemma onmessage_cases:
  obtains (skips) "audioData m \<noteq> Inl TypeError"
      "\<not> (\<exists>p. audioData m = Inr (Some p) \<and> p \<noteq> []
              \<and> outputAudioContextRef s \<noteq> None \<and> analyserNodeRef s)"
  | (throws) "audioData m = Inl TypeError"
  | (plays) p where "audioData m = Inr (Some p)" "p \<noteq> []"
      "outputAudioContextRef s \<noteq> None" "analyserNodeRef s"
  by blast

lemma first_chunk:
  "snd (onmessage demoEnv (atTime 0) (audioMessage chunk) liveConv) =
     liveConv\<lparr>activeAudioSources := 1, nextStartTimeRef := 1 / 10, audioSourcesRef := [0],
       animationFrameIdRef := Some 1, nodeCounter := 1, frameCounter := 2,
       pendingFrames := [1],
       effects := effects liveConv @ [ClearRect, DrawImage, RequestAnimationFrame 1,
                    SourceStart 0 0]\<rparr>"
proof -
  have a: "animateMouth demoEnv (atTime 0) liveConv =
      liveConv\<lparr>animationFrameIdRef := Some 1, frameCounter := 2, pendingFrames := [1],
        effects := effects liveConv @ [ClearRect, DrawImage, RequestAnimationFrame 1]\<rparr>"
    by (simp add: animateMouth_frame [OF liveConv_guards] effectiveVolume_atTime
        drawFrame_def mouthOpenness_def)
      (simp add: liveConv_eq requestAnimationFrame_def emit_def)
  have "onmessage demoEnv (atTime 0) (audioMessage chunk) liveConv =
      (Completed, afterAudio (audioMessage chunk)
         ((startLoop demoEnv (atTime 0) liveConv)
            \<lparr>nextStartTimeRef := max (nextStartTimeRef liveConv) (currentTime (atTime 0)) + 1 / 10,
             nodeCounter := Suc (nodeCounter liveConv),
             activeAudioSources := activeAudioSources liveConv + 1,
             audioSourcesRef := audioSourcesRef liveConv @ [nodeCounter liveConv],
             effects := effects (startLoop demoEnv (atTime 0) liveConv)
                        @ [SourceStart (nodeCounter liveConv)
                             (max (nextStartTimeRef liveConv) (currentTime (atTime 0)))]\<rparr>))"
    by (rule onmessage_audio [OF _ chunk_nonempty _ _ decode_chunk])
      (simp_all add: liveConv_eq)
  then show ?thesis
    by (simp add: afterAudio_plain)
      (simp add: startLoop_def a liveConv_guards, simp add: liveConv_eq atTime_def)
qed

lemma playing_eq:
  "playing =
     liveConv\<lparr>activeAudioSources := 2, nextStartTimeRef := 1 / 5, audioSourcesRef := [0, 1],
       animationFrameIdRef := Some 1, nodeCounter := 2, frameCounter := 2,
       pendingFrames := [1],
       effects := effects liveConv @ [ClearRect, DrawImage, RequestAnimationFrame 1,
                    SourceStart 0 0, SourceStart 1 (1 / 10)]\<rparr>"
proof -
  let ?s = "snd (onmessage demoEnv (atTime 0) (audioMessage chunk) liveConv)"
  have "onmessage demoEnv (atTime (1 / 20)) (audioMessage chunk) ?s =
      (Completed, afterAudio (audioMessage chunk)
         ((startLoop demoEnv (atTime (1 / 20)) ?s)
            \<lparr>nextStartTimeRef := max (nextStartTimeRef ?s) (currentTime (atTime (1 / 20))) + 1 / 10,
             nodeCounter := Suc (nodeCounter ?s),
             activeAudioSources := activeAudioSources ?s + 1,
             audioSourcesRef := audioSourcesRef ?s @ [nodeCounter ?s],
             effects := effects (startLoop demoEnv (atTime (1 / 20)) ?s)
                        @ [SourceStart (nodeCounter ?s)
                             (max (nextStartTimeRef ?s) (currentTime (atTime (1 / 20))))]\<rparr>))"
    by (rule onmessage_audio [OF _ chunk_nonempty _ _ decode_chunk])
      (simp_all add: first_chunk, simp_all add: liveConv_eq)
  then have "snd (onmessage demoEnv (atTime (1 / 20)) (audioMessage chunk) ?s) =
     liveConv\<lparr>activeAudioSources := 2, nextStartTimeRef := 1 / 5, audioSourcesRef := [0, 1],
       animationFrameIdRef := Some 1, nodeCounter := 2, frameCounter := 2,
       pendingFrames := [1],
       effects := effects liveConv @ [ClearRect, DrawImage, RequestAnimationFrame 1,
                    SourceStart 0 0, SourceStart 1 (1 / 10)]\<rparr>"
    by (simp add: afterAudio_plain)
      (simp add: startLoop_def first_chunk, simp add: liveConv_eq atTime_def)
  then show ?thesis by (simp add: playing_def run_def)
qed

lemma handleInterrupted_playback:
  "audioSourcesRef (handleInterrupted s) = [] \<and> activeAudioSources (handleInterrupted s) = 0
   \<and> nextStartTimeRef (handleInterrupted s) = 0
   \<and> (\<forall>n \<in> set (audioSourcesRef s). SourceStop n \<in> set (effects (handleInterrupted s)))"
proof -
  obtain es where "effects (handleInterrupted s) = (effects s @ map SourceStop (audioSourcesRef s)) @ es"
    using effects_stopAnimation [of "(stopSources s)\<lparr>activeAudioSources := 0, nextStartTimeRef := 0\<rparr>"]
    by (auto simp: handleInterrupted_def)
  then show ?thesis by (auto simp: handleInterrupted_def)
qed

lemma appendTranscriptions_fields [simp]:
  "audioSourcesRef (appendTranscriptions m s) = audioSourcesRef s"
  "activeAudioSources (appendTranscriptions m s) = activeAudioSources s"
  "nextStartTimeRef (appendTranscriptions m s) = nextStartTimeRef s"
  "effects (appendTranscriptions m s) = effects s"
  "transcript (appendTranscriptions m s) = transcript s"
  "currentInputTranscriptionRef (appendTranscriptions m s) =
     currentInputTranscriptionRef s @ (case inputTranscription m of None \<Rightarrow> [] | Some t \<Rightarrow> t)"
  "currentOutputTranscriptionRef (appendTranscriptions m s) =
     currentOutputTranscriptionRef s @ (case outputTranscription m of None \<Rightarrow> [] | Some t \<Rightarrow> t)"
  by (simp_all add: appendTranscriptions_def Let_def split: option.splits)

lemma handleTurnComplete_fields [simp]:
  "audioSourcesRef (handleTurnComplete s) = audioSourcesRef s"
  "activeAudioSources (handleTurnComplete s) = activeAudioSources s"
  "nextStartTimeRef (handleTurnComplete s) = nextStartTimeRef s"
  "effects (handleTurnComplete s) = effects s"
  by (simp_all add: handleTurnComplete_def Let_def)

lemma afterAudio_interrupted:
  assumes "interrupted m"
  shows "audioSourcesRef (afterAudio m s) = [] \<and> activeAudioSources (afterAudio m s) = 0
   \<and> nextStartTimeRef (afterAudio m s) = 0
   \<and> (\<forall>n \<in> set (audioSourcesRef s). SourceStop n \<in> set (effects (afterAudio m s)))"
  using assms handleInterrupted_playback [of s] by (simp add: afterAudio_def Let_def)

lemma playAudio_sources:
  "set (audioSourcesRef s) \<subseteq> set (audioSourcesRef (snd (playAudio e b p s)))"
  by (auto simp: playAudio_def Let_def split: option.splits)

lemma playAudio_text:
  "transcript (snd (playAudio e b p s)) = transcript s
   \<and> currentInputTranscriptionRef (snd (playAudio e b p s)) = currentInputTranscriptionRef s
   \<and> currentOutputTranscriptionRef (snd (playAudio e b p s)) = currentOutputTranscriptionRef s"
  by (simp add: playAudio_def startLoop_def Let_def split: option.splits)

lemma onmessage_decodes:
  assumes "decodes e m"
  shows "\<exists>s1. onmessage e b m s = (Completed, afterAudio m s1)
            \<and> set (audioSourcesRef s) \<subseteq> set (audioSourcesRef s1)
            \<and> transcript s1 = transcript s
            \<and> currentInputTranscriptionRef s1 = currentInputTranscriptionRef s
            \<and> currentOutputTranscriptionRef s1 = currentOutputTranscriptionRef s"
proof (cases m s rule: onmessage_cases)
  case throws
  then show ?thesis using assms by (simp add: decodes_def)
next
  case skips
  then show ?thesis by (intro exI [of _ s]) (simp add: onmessage_skips)
next
  case (plays p)
  with assms obtain d where d: "decodeAudioData e p = Some d"
    by (auto simp: decodes_def)
  then obtain s1 where s1: "playAudio e b p s = (Completed, s1)"
    by (simp add: playAudio_def Let_def)
  have "onmessage e b m s = (Completed, afterAudio m s1)"
    using plays s1 by (simp add: onmessage_def)
  moreover have "set (audioSourcesRef s) \<subseteq> set (audioSourcesRef s1)"
    using playAudio_sources [of s e b p] s1 by simp
  moreover have "transcript s1 = transcript s
      \<and> currentInputTranscriptionRef s1 = currentInputTranscriptionRef s
      \<and> currentOutputTranscriptionRef s1 = currentOutputTranscriptionRef s"
    using playAudio_text [of e b p s] s1 by simp
  ultimately show ?thesis by blast
qed

text \<open>
  When the handler is not rejected, a message with the interrupted flag leaves no active
  source, however many were active.
\<close>

lemma interrupted_clears_playback:
  assumes "interrupted m" and "decodes e m"
  shows "fst (onmessage e b m s) = Completed
    \<and> audioSourcesRef (snd (onmessage e b m s)) = []
    \<and> activeAudioSources (snd (onmessage e b m s)) = 0
    \<and> nextStartTimeRef (snd (onmessage e b m s)) = 0
    \<and> (\<forall>n \<in> set (audioSourcesRef s). SourceStop n \<in> set (effects (snd (onmessage e b m s))))"
proof -
  obtain s1 where s1: "onmessage e b m s = (Completed, afterAudio m s1)"
      "set (audioSourcesRef s) \<subseteq> set (audioSourcesRef s1)"
    using onmessage_decodes [OF assms(2)] by blast
  show ?thesis
    using afterAudio_interrupted [OF assms(1), of s1] s1 by auto
qed

lemma playing_playback:
  "audioSourcesRef playing = [0, 1]" "activeAudioSources playing = 2"
  "nextStartTimeRef playing = 1 / 5" "animationFrameIdRef playing = Some 1"
  "outputAudioContextRef playing = Some Running" "analyserNodeRef playing"
  by (simp_all add: playing_eq liveConv_eq)

lemma broken_chunk_rejected:
  assumes "audioData m = Inr (Some brokenChunk)"
    and "animationFrameIdRef s = Some i" and "currentTime b \<le> nextStartTimeRef s"
    and "outputAudioContextRef s \<noteq> None" and "analyserNodeRef s"
  shows "onmessage demoEnv b m s = (Rejected, s)"
proof -
  have "s\<lparr>nextStartTimeRef := max (nextStartTimeRef s) (currentTime b)\<rparr> = s"
    using assms(3) by (simp add: max_def)
  then have "playAudio demoEnv b brokenChunk s = (Rejected, s)"
    using assms(2) by (simp add: playAudio_def startLoop_def decode_brokenChunk)
  then show ?thesis
    using assms(1,4,5) by (simp add: onmessage_def brokenChunk_def)
qed

text \<open>
  C2.  The handler reads the audio data and awaits the decoder before it looks at the
  flags, and catches nothing.  With two sources playing, a message that has the
  interrupted flag and a chunk that does not decode is rejected at the decoder, and one
  whose model turn has no parts is rejected at the first line: in both cases the
  interruption is lost, the two sources stay active, their count stays 2 and the next
  start time stays 1/5.
\<close>

theorem interrupted_lost_when_rejected:
  "interrupted ((audioMessage brokenChunk)\<lparr>interrupted := True\<rparr>)
   \<and> onmessage demoEnv (atTime (1 / 10))
        ((audioMessage brokenChunk)\<lparr>interrupted := True\<rparr>) playing = (Rejected, playing)
   \<and> interrupted (partlessMessage\<lparr>interrupted := True\<rparr>)
   \<and> onmessage demoEnv (atTime (1 / 10))
        (partlessMessage\<lparr>interrupted := True\<rparr>) playing = (Rejected, playing)
   \<and> audioSourcesRef playing = [0, 1] \<and> activeAudioSources playing = 2
   \<and> nextStartTimeRef playing = 1 / 5"
proof -
  have "onmessage demoEnv (atTime (1 / 10))
        ((audioMessage brokenChunk)\<lparr>interrupted := True\<rparr>) playing = (Rejected, playing)"
    by (rule broken_chunk_rejected [where i = 1]) (simp_all add: playing_playback atTime_def)
  moreover have "onmessage demoEnv (atTime (1 / 10))
        (partlessMessage\<lparr>interrupted := True\<rparr>) playing = (Rejected, playing)"
    by (simp add: onmessage_def)
  ultimately show ?thesis by (simp add: playing_playback)
qed

lemma handleInterrupted_text [simp]:
  "transcript (handleInterrupted s) = transcript s"
  "currentInputTranscriptionRef (handleInterrupted s) = currentInputTranscriptionRef s"
  "currentOutputTranscriptionRef (handleInterrupted s) = currentOutputTranscriptionRef s"
  by (simp_all add: handleInterrupted_def)

lemma afterAudio_text:
  "transcript (afterAudio m s) =
     transcript s
     @ (if turnComplete m
        then newEntries
               (trim (currentInputTranscriptionRef s
                      @ (case inputTranscription m of None \<Rightarrow> [] | Some t \<Rightarrow> t)))
               (trim (currentOutputTranscriptionRef s
                      @ (case outputTranscription m of None \<Rightarrow> [] | Some t \<Rightarrow> t)))
        else [])"
  "currentInputTranscriptionRef (afterAudio m s) =
     (if turnComplete m then []
      else currentInputTranscriptionRef s
           @ (case inputTranscription m of None \<Rightarrow> [] | Some t \<Rightarrow> t))"
  "currentOutputTranscriptionRef (afterAudio m s) =
     (if turnComplete m then []
      else currentOutputTranscriptionRef s
           @ (case outputTranscription m of None \<Rightarrow> [] | Some t \<Rightarrow> t))"
  by (simp_all add: afterAudio_def handleTurnComplete_def Let_def)

lemma handle_withinTurn:
  assumes "withinTurn e ev"
  shows "transcript (handle e ev s) = transcript s
    \<and> currentInputTranscriptionRef (handle e ev s) =
        currentInputTranscriptionRef s @ inputFragments [ev]
    \<and> currentOutputTranscriptionRef (handle e ev s) =
        currentOutputTranscriptionRef s @ outputFragments [ev]"
proof (cases ev)
  case (OnMessage b m)
  with assms have d: "decodes e m" and t: "\<not> turnComplete m" by simp_all
  obtain s1 where s1: "onmessage e b m s = (Completed, afterAudio m s1)"
      "transcript s1 = transcript s"
      "currentInputTranscriptionRef s1 = currentInputTranscriptionRef s"
      "currentOutputTranscriptionRef s1 = currentOutputTranscriptionRef s"
    using onmessage_decodes [OF d] by blast
  show ?thesis using OnMessage s1 t by (simp add: afterAudio_text)
next
  case (OnFrame b)
  then show ?thesis by (simp split: list.splits)
qed (simp_all add: onopen_def onended_def onerror_def onclose_def endConversation_def Let_def)

lemma inputFragments_Cons: "inputFragments (ev # evs) = inputFragments [ev] @ inputFragments evs"
  by (cases ev) simp_all

lemma outputFragments_Cons: "outputFragments (ev # evs) = outputFragments [ev] @ outputFragments evs"
  by (cases ev) simp_all

lemma run_withinTurn:
  assumes "\<forall>ev \<in> set evs. withinTurn e ev"
  shows "transcript (run e evs s) = transcript s
    \<and> currentInputTranscriptionRef (run e evs s) =
        currentInputTranscriptionRef s @ inputFragments evs
    \<and> currentOutputTranscriptionRef (run e evs s) =
        currentOutputTranscriptionRef s @ outputFragments evs"
  using assms
proof (induction evs arbitrary: s)
  case Nil
  show ?case by (simp add: run_def)
next
  case (Cons ev evs)
  have r: "run e (ev # evs) s = run e evs (handle e ev s)"
    by (simp add: run_def)
  from Cons.prems have w: "withinTurn e ev" and rest: "\<forall>ev \<in> set evs. withinTurn e ev"
    by simp_all
  show ?case
    unfolding r
    using Cons.IH [OF rest, of "handle e ev s"] handle_withinTurn [OF w, of s]
      inputFragments_Cons [of ev evs] outputFragments_Cons [of ev evs]
    by simp
qed

text \<open>
  When the handler is not rejected, a message that completes the turn trims both
  buffers (with the fragments of the message itself appended) and appends one entry for
  each trimmed buffer that is not empty, the user's before the model's; then both
  buffers are empty.  While no handler is rejected, the buffers grow within a turn by the
  fragments in the order of arrival.
\<close>

lemma turnComplete_commits_transcript:
  "(turnComplete m \<and> decodes e m \<longrightarrow>
      (let fullInput = trim (currentInputTranscriptionRef s
                             @ (case inputTranscription m of None \<Rightarrow> [] | Some t \<Rightarrow> t));
           fullOutput = trim (currentOutputTranscriptionRef s
                              @ (case outputTranscription m of None \<Rightarrow> [] | Some t \<Rightarrow> t));
           s' = snd (onmessage e b m s)
       in fst (onmessage e b m s) = Completed
          \<and> transcript s' = transcript s @ newEntries fullInput fullOutput
          \<and> (fullInput = [] \<and> fullOutput \<noteq> [] \<longrightarrow>
               transcript s' = transcript s @ [\<lparr>speaker = Model, entry_text = fullOutput\<rparr>])
          \<and> (fullInput \<noteq> [] \<and> fullOutput \<noteq> [] \<longrightarrow>
               transcript s' = transcript s @ [\<lparr>speaker = User, entry_text = fullInput\<rparr>,
                                               \<lparr>speaker = Model, entry_text = fullOutput\<rparr>])
          \<and> currentInputTranscriptionRef s' = []
          \<and> currentOutputTranscriptionRef s' = []))
   \<and> ((\<forall>ev \<in> set evs. withinTurn e ev) \<longrightarrow>
        transcript (run e evs s) = transcript s
        \<and> currentInputTranscriptionRef (run e evs s) =
            currentInputTranscriptionRef s @ inputFragments evs
        \<and> currentOutputTranscriptionRef (run e evs s) =
            currentOutputTranscriptionRef s @ outputFragments evs)"
  (is "(?H1 \<longrightarrow> ?C1) \<and> (?H2 \<longrightarrow> ?C2)")
proof (rule conjI; rule impI)
  assume a: ?H1
  then obtain s1 where s1: "onmessage e b m s = (Completed, afterAudio m s1)"
      "transcript s1 = transcript s"
      "currentInputTranscriptionRef s1 = currentInputTranscriptionRef s"
      "currentOutputTranscriptionRef s1 = currentOutputTranscriptionRef s"
    using onmessage_decodes [of e m b s] by blast
  show ?C1
    using a s1 by (simp add: Let_def afterAudio_text newEntries_def)
next
  assume ?H2
  then show ?C2
    by (rule run_withinTurn)
qed

lemma trim_examples:
  "trim (str '' Hi '') = str ''Hi''" "trim (str ''Hello '') = str ''Hello''"
  "trim (str ''Hello'') = str ''Hello''" "str ''Hi'' \<noteq> []" "str ''Hello'' \<noteq> []"
  by (simp_all add: trim_def str_def isWhiteSpace_def)

text \<open>
  C3.  With the text \<open>Hello\<close> pending in the output buffer, a message that completes the
  turn and carries a chunk that does not decode is rejected at the decoder, and one whose
  model turn has no parts is rejected at the first line: in both cases nothing is appended
  to the transcript and the buffer is not reset.  A fragment that arrives with a chunk
  that does not decode is lost in the same way.  The cause is the one that loses an
  interruption: the flags and fragments are read after code that can throw, and nothing
  is caught.
\<close>

theorem turnComplete_lost_when_rejected:
  "snd (onmessage demoEnv (atTime (1 / 10))
        (emptyMessage\<lparr>outputTranscription := Some (str ''Hello'')\<rparr>) playing)
     = playing\<lparr>currentOutputTranscriptionRef := str ''Hello''\<rparr>
   \<and> trim (str ''Hello'') \<noteq> []
   \<and> transcript (playing\<lparr>currentOutputTranscriptionRef := str ''Hello''\<rparr>) = []
   \<and> turnComplete ((audioMessage brokenChunk)\<lparr>turnComplete := True\<rparr>)
   \<and> onmessage demoEnv (atTime (1 / 10)) ((audioMessage brokenChunk)\<lparr>turnComplete := True\<rparr>)
       (playing\<lparr>currentOutputTranscriptionRef := str ''Hello''\<rparr>)
     = (Rejected, playing\<lparr>currentOutputTranscriptionRef := str ''Hello''\<rparr>)
   \<and> turnComplete (partlessMessage\<lparr>turnComplete := True\<rparr>)
   \<and> onmessage demoEnv (atTime (1 / 10)) (partlessMessage\<lparr>turnComplete := True\<rparr>)
       (playing\<lparr>currentOutputTranscriptionRef := str ''Hello''\<rparr>)
     = (Rejected, playing\<lparr>currentOutputTranscriptionRef := str ''Hello''\<rparr>)
   \<and> onmessage demoEnv (atTime (1 / 10))
       ((audioMessage brokenChunk)\<lparr>outputTranscription := Some (str ''Hello'')\<rparr>) playing
     = (Rejected, playing)
   \<and> currentOutputTranscriptionRef playing = []"
proof -
  have heard: "snd (onmessage demoEnv (atTime (1 / 10))
        (emptyMessage\<lparr>outputTranscription := Some (str ''Hello'')\<rparr>) playing)
      = playing\<lparr>currentOutputTranscriptionRef := str ''Hello''\<rparr>"
    by (simp add: onmessage_def afterAudio_def appendTranscriptions_def)
      (simp add: playing_eq liveConv_eq)
  have b1: "onmessage demoEnv (atTime (1 / 10)) ((audioMessage brokenChunk)\<lparr>turnComplete := True\<rparr>)
       (playing\<lparr>currentOutputTranscriptionRef := str ''Hello''\<rparr>)
     = (Rejected, playing\<lparr>currentOutputTranscriptionRef := str ''Hello''\<rparr>)"
    by (rule broken_chunk_rejected [where i = 1]) (simp_all add: playing_playback atTime_def)
  have b2: "onmessage demoEnv (atTime (1 / 10)) (partlessMessage\<lparr>turnComplete := True\<rparr>)
       (playing\<lparr>currentOutputTranscriptionRef := str ''Hello''\<rparr>)
     = (Rejected, playing\<lparr>currentOutputTranscriptionRef := str ''Hello''\<rparr>)"
    by (simp add: onmessage_def)
  have b3: "onmessage demoEnv (atTime (1 / 10))
       ((audioMessage brokenChunk)\<lparr>outputTranscription := Some (str ''Hello'')\<rparr>) playing
     = (Rejected, playing)"
    by (rule broken_chunk_rejected [where i = 1]) (simp_all add: playing_playback atTime_def)
  have t: "transcript playing = []" "currentOutputTranscriptionRef playing = []"
    by (simp_all add: playing_eq liveConv_eq)
  from heard b1 b2 b3 t show ?thesis
    by (simp add: trim_examples)
qed

section \<open>Errors and failed starts\<close>

lemma stopAudioProcessing_live:
  assumes "scriptProcessorRef s" and "mediaStreamSourceRef s" and "audioStreamRef s"
    and "inputAudioContextRef s = Some Running" and "outputAudioContextRef s = Some Running"
  shows "stopAudioProcessing s =
           s\<lparr>scriptProcessorRef := False, mediaStreamSourceRef := False,
             audioStreamRef := False, inputAudioContextRef := Some Closed,
             outputAudioContextRef := Some Closed,
             effects := effects s @ [MediaStreamSourceDisconnect, ScriptProcessorDisconnect,
                          TrackStop, ContextClose InputContext, ContextClose OutputContext]\<rparr>"
  using assms by (simp add: stopAudioProcessing_def Let_def emit_def)

text \<open>
  C4, as amended.  On a transport error in an opened session the status becomes
  \<open>Error\<close> and the microphone stream and the audio resources are released: the two
  processing nodes are disconnected, the tracks of the microphone stream are stopped and
  the stream is dropped, and both audio contexts are closed.
\<close>

theorem onerror_releases_audio:
  assumes "scriptProcessorRef s" and "mediaStreamSourceRef s" and "audioStreamRef s"
    and "inputAudioContextRef s = Some Running" and "outputAudioContextRef s = Some Running"
  shows "status (onerror s) = Error
    \<and> \<not> scriptProcessorRef (onerror s) \<and> \<not> mediaStreamSourceRef (onerror s)
    \<and> \<not> audioStreamRef (onerror s)
    \<and> inputAudioContextRef (onerror s) = Some Closed
    \<and> outputAudioContextRef (onerror s) = Some Closed
    \<and> effects (onerror s) =
        effects s @ [SetStatus Error, MediaStreamSourceDisconnect, ScriptProcessorDisconnect,
          TrackStop, ContextClose InputContext, ContextClose OutputContext]"
proof -
  have "onerror s =
      (setStatus Error s)\<lparr>scriptProcessorRef := False, mediaStreamSourceRef := False,
         audioStreamRef := False, inputAudioContextRef := Some Closed,
         outputAudioContextRef := Some Closed,
         effects := effects (setStatus Error s) @ [MediaStreamSourceDisconnect,
                      ScriptProcessorDisconnect, TrackStop, ContextClose InputContext,
                      ContextClose OutputContext]\<rparr>"
    unfolding onerror_def by (rule stopAudioProcessing_live) (simp_all add: assms)
  then show ?thesis by simp
qed

lemma playing_live:
  "scriptProcessorRef playing" "mediaStreamSourceRef playing" "audioStreamRef playing"
  "inputAudioContextRef playing = Some Running" "outputAudioContextRef playing = Some Running"
  by (simp_all add: playing_eq liveConv_eq)

text \<open>The hypotheses of C4 hold for the demo session with two playing sources.\<close>

theorem onerror_releases_audio_witness:
  "status (onerror playing) = Error \<and> \<not> audioStreamRef (onerror playing)
   \<and> effects (onerror playing) =
       effects playing @ [SetStatus Error, MediaStreamSourceDisconnect,
         ScriptProcessorDisconnect, TrackStop, ContextClose InputContext,
         ContextClose OutputContext]"
  using onerror_releases_audio [OF playing_live] by simp

text \<open>
  C4 as stated fails: the error handler does not close the session, stops no source,
  keeps the set of sources and leaves the animation frame requested, all of which
  \<^verbatim>\<open>endConversation\<close> does.
\<close>

theorem onerror_leaves_session_and_playback:
  "sessionPromiseRef (onerror playing)
   \<and> audioSourcesRef (onerror playing) = [0, 1]
   \<and> animationFrameIdRef (onerror playing) = Some 1
   \<and> pendingFrames (onerror playing) = [1]
   \<and> effects (onerror playing) =
       effects playing @ [SetStatus Error, MediaStreamSourceDisconnect,
         ScriptProcessorDisconnect, TrackStop, ContextClose InputContext,
         ContextClose OutputContext]
   \<and> effects (endConversation playing) =
       effects playing @ [SetStatus Idle, MediaStreamSourceDisconnect,
         ScriptProcessorDisconnect, TrackStop, ContextClose InputContext,
         ContextClose OutputContext, CancelAnimationFrame 1, SourceStop 0, SourceStop 1,
         OnEnd, SessionClose]"
proof -
  have e1: "effects (onerror playing) =
       effects playing @ [SetStatus Error, MediaStreamSourceDisconnect,
         ScriptProcessorDisconnect, TrackStop, ContextClose InputContext,
         ContextClose OutputContext]"
    by (simp add: onerror_def stopAudioProcessing_live playing_live)
  have f: "sessionPromiseRef (onerror playing)" "audioSourcesRef (onerror playing) = [0, 1]"
    "animationFrameIdRef (onerror playing) = Some 1" "pendingFrames (onerror playing) = [1]"
    by (simp_all add: onerror_def, simp_all add: playing_eq liveConv_eq)
  have s2: "stopAudioProcessing ((setStatus Idle playing)\<lparr>sessionPromiseRef := False\<rparr>) =
      ((setStatus Idle playing)\<lparr>sessionPromiseRef := False\<rparr>)
        \<lparr>scriptProcessorRef := False, mediaStreamSourceRef := False,
         audioStreamRef := False, inputAudioContextRef := Some Closed,
         outputAudioContextRef := Some Closed,
         effects := effects ((setStatus Idle playing)\<lparr>sessionPromiseRef := False\<rparr>)
                    @ [MediaStreamSourceDisconnect, ScriptProcessorDisconnect,
                       TrackStop, ContextClose InputContext, ContextClose OutputContext]\<rparr>"
    by (rule stopAudioProcessing_live) (simp_all add: playing_live)
  have sp: "sessionPromiseRef playing" "animationFrameIdRef playing = Some 1"
    "audioSourcesRef playing = [0, 1]"
    by (simp_all add: playing_eq liveConv_eq)
  have e2: "effects (endConversation playing) =
       effects playing @ [SetStatus Idle, MediaStreamSourceDisconnect,
         ScriptProcessorDisconnect, TrackStop, ContextClose InputContext,
         ContextClose OutputContext, CancelAnimationFrame 1, SourceStop 0, SourceStop 1,
         OnEnd, SessionClose]"
    by (simp add: endConversation_def Let_def sp s2 cancelAnimation_def)
  from e1 e2 f show ?thesis by simp
qed

text \<open>
  When a step of \<^verbatim>\<open>startConversation\<close> throws, the status goes to \<open>Connecting\<close> and then
  to \<open>Error\<close> and is never \<open>Live\<close>; when the microphone is denied, the stream ref is as
  it was.
\<close>

lemma failed_start_reaches_error:
  "status (startConversation (Some f) s) = Error
   \<and> effects (startConversation (Some f) s) = effects s @ [SetStatus Connecting, SetStatus Error]
   \<and> (f = PermissionDenied \<longrightarrow>
        audioStreamRef (startConversation (Some f) s) = audioStreamRef s)"
  by (cases f) (simp_all add: startConversation_def Let_def)

lemma mount_demo:
  "mount demoCanvas demoImage =
     initialConv\<lparr>canvasRef := Some demoCanvas, imageRef := Some demoImage,
       effects := [DrawImage]\<rparr>"
  by (simp add: mount_def demoCanvas_def emit_def initialConv_def)

text \<open>
  C5.  When the microphone was granted and the client constructor throws, the \<^verbatim>\<open>catch\<close>
  block only sets the status: the status is \<open>Error\<close> and was never \<open>Live\<close>, but the
  stream stays in its ref, no track is stopped and both audio contexts stay open.  The
  error callback of the session releases all of them with \<^verbatim>\<open>stopAudioProcessing\<close>; the
  \<^verbatim>\<open>catch\<close> block does not call it.  When nothing throws inside the \<^verbatim>\<open>try\<close>, the
  status is \<open>Connecting\<close> until a callback of the session runs: a later rejection of the
  promise of \<^verbatim>\<open>connect\<close>, which is not awaited, runs no code of the component.
\<close>

theorem failed_start_keeps_microphone:
  "status (startConversation (Some ClientFails) (mount demoCanvas demoImage)) = Error
   \<and> audioStreamRef (startConversation (Some ClientFails) (mount demoCanvas demoImage))
   \<and> inputAudioContextRef (startConversation (Some ClientFails) (mount demoCanvas demoImage))
       = Some Running
   \<and> outputAudioContextRef (startConversation (Some ClientFails) (mount demoCanvas demoImage))
       = Some Running
   \<and> effects (startConversation (Some ClientFails) (mount demoCanvas demoImage)) =
       [DrawImage, SetStatus Connecting, SetStatus Error]
   \<and> \<not> audioStreamRef
         (stopAudioProcessing
            (startConversation (Some ClientFails) (mount demoCanvas demoImage)))
   \<and> status (startConversation None (mount demoCanvas demoImage)) = Connecting
   \<and> audioStreamRef (startConversation None (mount demoCanvas demoImage))"
  by (simp add: startConversation_def Let_def mount_demo initialConv_def
      stopAudioProcessing_def)
section \<open>The playback scheduler\<close>

lemma startTimes_append [simp]: "startTimes (xs @ ys) = startTimes xs @ startTimes ys"
  by (induction xs rule: startTimes.induct) simp_all

lemma startTimes_stops [simp]: "startTimes (map SourceStop ns) = []"
  by (induction ns) simp_all

lemma startTimes_drawFrame [simp]: "startTimes (drawFrame c img coords sm) = []"
  by (simp add: drawFrame_def)

lemma startTimes_cancelAnimation [simp]:
  "startTimes (effects (cancelAnimation s)) = startTimes (effects s)"
  by (simp add: cancelAnimation_def split: option.splits)

lemma startTimes_stopAnimation [simp]:
  "startTimes (effects (stopAnimation s)) = startTimes (effects s)"
  by (simp add: stopAnimation_def Let_def split: option.splits)

lemma startTimes_animateMouth [simp]:
  "startTimes (effects (animateMouth e b s)) = startTimes (effects s)"
  by (simp add: animateMouth_def Let_def split: option.splits)

lemma startTimes_startLoop [simp]:
  "startTimes (effects (startLoop e b s)) = startTimes (effects s)"
  by (simp add: startLoop_def)

lemma startTimes_stopAudioProcessing [simp]:
  "startTimes (effects (stopAudioProcessing s)) = startTimes (effects s)"
  by (simp add: stopAudioProcessing_def Let_def)

lemma startTimes_handleInterrupted [simp]:
  "startTimes (effects (handleInterrupted s)) = startTimes (effects s)"
  by (simp add: handleInterrupted_def)

lemma startTimes_afterAudio [simp]:
  "startTimes (effects (afterAudio m s)) = startTimes (effects s)"
  by (simp add: afterAudio_def Let_def)


lemma guards_afterAudio [simp]:
  "outputAudioContextRef (afterAudio m s) = outputAudioContextRef s"
  "analyserNodeRef (afterAudio m s) = analyserNodeRef s"
  by (simp_all add: afterAudio_def Let_def handleInterrupted_def appendTranscriptions_def
      handleTurnComplete_def split: option.splits)










section \<open>A conversation without a mouth region\<close>

lemma filter_stops [simp]: "filter sourceEffect (map SourceStop ns) = map SourceStop ns"
  by (induction ns) simp_all

lemma filter_drawFrame [simp]: "filter sourceEffect (drawFrame c img coords sm) = []"
  by (simp add: drawFrame_def)

lemma audioView_simps [simp]:
  "audioView (emit es s) =
     ((filter sourceEffect (effects s) @ filter sourceEffect es, nextStartTimeRef s,
       audioSourcesRef s, activeAudioSources s),
      nodeCounter s, outputAudioContextRef s, analyserNodeRef s)"
  "audioView (setStatus st s) = audioView s"
  "audioView (requestAnimationFrame s) = audioView s"
  "audioView (cancelAnimation s) = audioView s"
  by (simp_all add: audioView_def playback_def cancelAnimation_def split: option.splits)

lemma sources_cancelAnimation [simp]:
  "filter sourceEffect (effects (cancelAnimation s)) = filter sourceEffect (effects s)"
  by (simp add: cancelAnimation_def split: option.splits)

lemma sources_stopAnimation [simp]:
  "filter sourceEffect (effects (stopAnimation s)) = filter sourceEffect (effects s)"
  by (simp add: stopAnimation_def Let_def split: option.splits)

lemma sources_animateMouth [simp]:
  "filter sourceEffect (effects (animateMouth e b s)) = filter sourceEffect (effects s)"
  by (simp add: animateMouth_def Let_def split: option.splits)

lemma audioView_stopAnimation [simp]: "audioView (stopAnimation s) = audioView s"
  by (simp add: audioView_def playback_def)

lemma audioView_animateMouth [simp]: "audioView (animateMouth e b s) = audioView s"
  by (simp add: audioView_def playback_def)











lemma noAnimation_update [simp]:
  "noAnimation (s\<lparr>status := st\<rparr>) = noAnimation s"
  "noAnimation (s\<lparr>nextStartTimeRef := t\<rparr>) = noAnimation s"
  "noAnimation (s\<lparr>sessionPromiseRef := sp\<rparr>) = noAnimation s"
  "noAnimation (s\<lparr>activeAudioSources := a\<rparr>) = noAnimation s"
  "noAnimation (s\<lparr>audioSourcesRef := ns\<rparr>) = noAnimation s"
  "noAnimation (s\<lparr>mediaStreamSourceRef := ms, scriptProcessorRef := sc\<rparr>) = noAnimation s"
  by (simp_all add: noAnimation_def)


lemma noAnimation_setStatus [simp]: "noAnimation (setStatus st s) = noAnimation s"
  by (auto simp: noAnimation_def)












text \<open>Every conversation starts without a requested animation frame.\<close>

lemma noAnimation_started: "noAnimation (startConversation failure (mount c img))"
  by (simp add: noAnimation_def startConversation_def Let_def mount_def initialConv_def)



section \<open>Detecting the mouth region\<close>

text \<open>
  A parsed response with a field that is missing or 0 changes nothing; a response that
  cannot be parsed resets the mouth coordinates.
\<close>

lemma parseMouthCoordinates_falsy:
  assumes "x = None \<or> x = Some 0 \<or> y = None \<or> y = Some 0 \<or> w = None \<or> w = Some 0
           \<or> h = None \<or> h = Some 0"
  shows "parseMouthCoordinates (Parsed x y w h) a = a"
  using assms by (auto simp: parseMouthCoordinates_def split: option.splits)

lemma parseMouthCoordinates_Unparsable:
  "app_mouthCoordinates (parseMouthCoordinates Unparsable a) = None"
  by (simp add: parseMouthCoordinates_def)

lemma first_journey:
  "handleStartJourney firstJourney initialApp =
     \<lparr>appState = Upload, photoUrl = Some (str ''blob:1''),
      personalityPrompt = Some (str ''You are a baker.''), voiceName = Zephyr,
      app_mouthCoordinates = Some demoCoords,
      app_error = Some (str ''Could not generate a persona. Please check your API key and try again.'')\<rparr>"
  by (simp add: handleStartJourney_def firstJourney_def initialApp_def journeyFailed_def
      parseMouthCoordinates_def demoCoords_def Let_def)

text \<open>
  C10.  A response with \<open>x = 0\<close> is not treated as an unparsable one when an earlier
  journey has left mouth coordinates behind.  The first journey finds the mouth and then
  fails at the gender request, which returns to the upload screen with the coordinates
  still set.  The second journey, for another photo, gets \<open>x = 0\<close>: the conversation
  view is rendered with the coordinates of the first photo, where an unparsable response
  would have rendered it with none.
\<close>

theorem stale_mouth_region_survives:
  "appState (handleStartJourney firstJourney initialApp) = Upload
   \<and> app_mouthCoordinates (handleStartJourney firstJourney initialApp) = Some demoCoords
   \<and> mouthCoordsResponse secondJourney = Some (Parsed (Some 0) (Some 55) (Some 30) (Some 12))
   \<and> conversationProps
        (handleStartJourney secondJourney (handleStartJourney firstJourney initialApp))
       = Some (Some demoCoords)
   \<and> conversationProps
        (handleStartJourney (secondJourney\<lparr>mouthCoordsResponse := Some Unparsable\<rparr>)
           (handleStartJourney firstJourney initialApp))
       = Some None"
  by (simp add: first_journey)
    (simp add: handleStartJourney_def secondJourney_def journeyFailed_def
      parseMouthCoordinates_def selectVoice_def conversationProps_def truthyString_def
      Let_def str_def)

end
